theory Spec2Isabelle
  imports Main "HOL-Library.Finite_Map"
begin

section \<open>Data of \<^verbatim>\<open>main.go\<close>\<close>

text \<open>
  The program lists the resources of one type in every AWS account and region it has a
  client for, asks the Terraform provider of each client which of the requested attributes
  the type has, and writes the result as a CSV file. Everything outside \<^verbatim>\<open>main.go\<close>
  (the AWS clients, the providers, the file system, the CSV writer, the logger) is a
  collaborator whose answers are taken from an environment record; what the program does to
  the outside is collected in a record of effects that every function passes on.
\<close>

text \<open>A Go \<^verbatim>\<open>error\<close> value, held as the message its \<^verbatim>\<open>Error()\<close> returns.\<close>

type_synonym error = string

text \<open>\<^verbatim>\<open>util.AWSClientKey\<close>: the key of the client pool and of the provider pool.\<close>

datatype AWSClientKey = AWSClientKey (Profile: string) (Region: string)

text \<open>
  A \<^verbatim>\<open>time.Time\<close> as its clock reading, and \<^verbatim>\<open>Format("2006-01-02 15:04:05")\<close> on it:
  every field in decimal, padded with zeros to the width of the layout.
\<close>

datatype Time = Time (year: nat) (month: nat) (day: nat) (hour: nat) (minute: nat) (second: nat)

fun decimal :: "nat \<Rightarrow> string" where
  "decimal n = (if n < 10 then [''0123456789'' ! n] else decimal (n div 10) @ [''0123456789'' ! (n mod 10)])"

definition zeroPad :: "nat \<Rightarrow> nat \<Rightarrow> string" where
  "zeroPad width n = replicate (width - length (decimal n)) (CHR ''0'') @ decimal n"

definition Format :: "Time \<Rightarrow> string" where
  "Format t =
     zeroPad 4 (year t) @ ''-'' @ zeroPad 2 (month t) @ ''-'' @ zeroPad 2 (day t) @ '' '' @
     zeroPad 2 (hour t) @ '':'' @ zeroPad 2 (minute t) @ '':'' @ zeroPad 2 (second t)"

text \<open>
  \<^verbatim>\<open>aws.Resource\<close>, with the fields \<^verbatim>\<open>main.go\<close> reads (\<^verbatim>\<open>Type\<close>, \<^verbatim>\<open>ID\<close>, \<^verbatim>\<open>CreatedAt\<close>, a
  pointer that may be nil) and the state that \<^verbatim>\<open>resource.GetStates\<close> fills in: \<open>None\<close> until
  the provider has been asked, then the attribute values it returned.
\<close>

record Resource =
  Type :: string
  ID :: string
  CreatedAt :: "Time option"
  State :: "(string \<times> string) list option"

text \<open>
  The \<^verbatim>\<open>map[string]bool\<close> that \<^verbatim>\<open>resource.HasAttributes\<close> returns. A nil map and an empty map
  behave alike under \<^verbatim>\<open>len\<close> and under lookup, the only two operations of \<^verbatim>\<open>main.go\<close> on
  it, so both are \<open>fmempty\<close>.
\<close>

type_synonym attrMap = "(string, bool) fmap"

definition len :: "attrMap \<Rightarrow> nat" where
  "len m = fcard (fmdom m)"

text \<open>An entry handed to the logger at debug severity, with its fields.\<close>

datatype LogEntry = Debug (logType: string) (logID: string) (logError: error) (logMessage: string)

text \<open>
  The effects of a run: what was written to the error stream and to standard output, the
  log entries, the directories made, the files with the records each holds, the argument
  of every call of \<^verbatim>\<open>resource.GetStates\<close>, and the providers closed.
\<close>

record World =
  stderr :: "string list"
  stdout :: "string list"
  logged :: "LogEntry list"
  dirs :: "string set"
  files :: "string \<rightharpoonup> string list list"
  hydrations :: "Resource list list"
  closed :: "AWSClientKey list"

text \<open>
  The collaborators. An error result is \<open>Inl\<close> or \<open>Some\<close>. \<^verbatim>\<open>HasAttributes\<close> returns its
  map together with its error, since \<^verbatim>\<open>printResource\<close> assigns the map before it looks at
  the error. \<^verbatim>\<open>SetAccountID\<close>, \<^verbatim>\<open>ListResourcesByType\<close> and \<^verbatim>\<open>HasAttributes\<close> take the key
  where the source passes the client or the provider stored under it, and \<^verbatim>\<open>GetStates\<close>
  asks the provider pool of the run. Ranging over a Go map yields its keys in an order
  that is not specified and may change from one loop to the next: \<open>rangeClients\<close> gives,
  for the keys of the client pool and the resource type being processed, the order of that
  iteration. The pools that \<^verbatim>\<open>NewAWSClientPool\<close> and \<^verbatim>\<open>NewProviderPool\<close> build are known by
  their keys; \<open>PrintDefaults\<close> is the text of the flag defaults.
\<close>

record Env =
  MatchSupportedTypes :: "string \<Rightarrow> error + string list"
  SetAccountID :: "AWSClientKey \<Rightarrow> error option"
  ListResourcesByType :: "AWSClientKey \<Rightarrow> string \<Rightarrow> error + Resource list"
  HasAttributes :: "string list \<Rightarrow> string \<Rightarrow> AWSClientKey \<Rightarrow> attrMap \<times> error option"
  GetStates :: "Resource list \<Rightarrow> Resource list"
  GetAttribute :: "string \<Rightarrow> Resource \<Rightarrow> error + string"
  RedString :: "string \<Rightarrow> string"
  MkdirAll :: "string \<Rightarrow> error option"
  Create :: "string \<Rightarrow> error option"
  csvWriteError :: "string list \<Rightarrow> error option"
  rangeClients :: "AWSClientKey list \<Rightarrow> string \<Rightarrow> AWSClientKey list"
  LookupEnv :: "string \<Rightarrow> string option"
  GetAWSProfiles :: "string list \<Rightarrow> error + string list option"
  NewAWSClientPool :: "string list option \<Rightarrow> string list option \<Rightarrow> error + AWSClientKey list"
  NewProviderPool :: "AWSClientKey list \<Rightarrow> error + AWSClientKey list"
  BuildVersionString :: string
  PrintDefaults :: string

text \<open>
  A function either returns, or panics with an error; in both cases the effects so far
  remain.
\<close>

datatype 'a outcome = Normal 'a World | Panicked error World

fun world :: "'a outcome \<Rightarrow> World" where
  "world (Normal x w) = w"
| "world (Panicked e w) = w"

fun panicked :: "'a outcome \<Rightarrow> bool" where
  "panicked (Normal x w) = False"
| "panicked (Panicked e w) = True"

definition Fprint_Stderr :: "string \<Rightarrow> World \<Rightarrow> World" where
  "Fprint_Stderr s w = w\<lparr>stderr := stderr w @ [s]\<rparr>"

definition newline :: string where
  "newline = [CHR 0x0A]"

section \<open>The path of the output file\<close>

text \<open>
  \<^verbatim>\<open>filepath.Join\<close> on a system whose separator is the slash: the elements from the first
  non-empty one on are joined with slashes and the result is cleaned (empty and \<^verbatim>\<open>.\<close>
  elements dropped, \<^verbatim>\<open>..\<close> cancelling the element before it, \<^verbatim>\<open>.\<close> for an empty result).
\<close>

fun splitSlash :: "string \<Rightarrow> string \<Rightarrow> string list" where
  "splitSlash cur [] = [cur]"
| "splitSlash cur (c # cs) = (if c = CHR ''/'' then cur # splitSlash [] cs else splitSlash (cur @ [c]) cs)"

fun cleanElems :: "bool \<Rightarrow> string list \<Rightarrow> string list \<Rightarrow> string list" where
  "cleanElems rooted out [] = out"
| "cleanElems rooted out (e # es) =
     (if e = [] \<or> e = ''.'' then cleanElems rooted out es
      else if e = ''..'' then
        (if out \<noteq> [] \<and> last out \<noteq> ''..'' then cleanElems rooted (butlast out) es
         else if rooted then cleanElems rooted out es
         else cleanElems rooted (out @ [e]) es)
      else cleanElems rooted (out @ [e]) es)"

fun joinSlash :: "string list \<Rightarrow> string" where
  "joinSlash [] = []"
| "joinSlash [e] = e"
| "joinSlash (e # es) = e @ ''/'' @ joinSlash es"

definition Clean :: "string \<Rightarrow> string" where
  "Clean p =
     (let rooted = (p \<noteq> [] \<and> hd p = CHR ''/'');
          r = (if rooted then ''/'' else []) @ joinSlash (cleanElems rooted [] (splitSlash [] p))
      in if r = [] then ''.'' else r)"

definition Join :: "string \<Rightarrow> string \<Rightarrow> string" where
  "Join a b = (if a \<noteq> [] then Clean (a @ ''/'' @ b) else if b \<noteq> [] then Clean b else [])"

section \<open>\<^verbatim>\<open>printHeaderCsv\<close> and \<^verbatim>\<open>printResourcesCsv\<close>\<close>

text \<open>
  The \<^verbatim>\<open>csv.Writer\<close> is the list of records written to it and not yet flushed. \<^verbatim>\<open>Write\<close>
  fails when the environment says so, otherwise it appends the record.
\<close>

type_synonym csvWriter = "string list list"

definition Write :: "Env \<Rightarrow> csvWriter \<Rightarrow> string list \<Rightarrow> error + csvWriter" where
  "Write env cw record = (case csvWriteError env record of Some err \<Rightarrow> Inl err | None \<Rightarrow> Inr (cw @ [record]))"

text \<open>The header starts as \<^verbatim>\<open>TYPE, ID, CREATED\<close> and the loop appends one attribute at a time.\<close>

definition printHeaderCsv :: "Env \<Rightarrow> csvWriter \<Rightarrow> string list \<Rightarrow> World \<Rightarrow> csvWriter outcome" where
  "printHeaderCsv env cw attributes w =
     (let header = foldl (\<lambda>header attribute. header @ [attribute]) [''TYPE'', ''ID'', ''CREATED''] attributes
      in case Write env cw header of
           Inl err \<Rightarrow> Panicked err w
         | Inr cw' \<Rightarrow> Normal cw' w)"

text \<open>
  One column of a row: \<^verbatim>\<open>N/A\<close> unless the attribute is a key of \<^verbatim>\<open>hasAttrs\<close>; for a key,
  the value \<^verbatim>\<open>resource.GetAttribute\<close> extracts, or \<^verbatim>\<open>error\<close> and a debug log entry with the
  type and the id of the resource when the extraction fails.
\<close>

definition attributeValue :: "Env \<Rightarrow> attrMap \<Rightarrow> Resource \<Rightarrow> string \<Rightarrow> World \<Rightarrow> string \<times> World" where
  "attributeValue env hasAttrs r attr w =
     (if attr |\<in>| fmdom hasAttrs then
        (case GetAttribute env attr r of
           Inl err \<Rightarrow> (''error'', w\<lparr>logged := logged w @ [Debug (Type r) (ID r) err ''failed to get attribute'']\<rparr>)
         | Inr v \<Rightarrow> (v, w))
      else (''N/A'', w))"

fun attributeLoop :: "Env \<Rightarrow> attrMap \<Rightarrow> Resource \<Rightarrow> string list \<Rightarrow> string list \<Rightarrow> World \<Rightarrow> string list \<times> World" where
  "attributeLoop env hasAttrs r [] resourceItem w = (resourceItem, w)"
| "attributeLoop env hasAttrs r (attr # attrs) resourceItem w =
     (case attributeValue env hasAttrs r attr w of
        (v, w') \<Rightarrow> attributeLoop env hasAttrs r attrs (resourceItem @ [v]) w')"

text \<open>The row of one resource: type, id, creation time (empty when nil), then the columns.\<close>

definition resourceRow :: "Env \<Rightarrow> attrMap \<Rightarrow> string list \<Rightarrow> Resource \<Rightarrow> World \<Rightarrow> string list \<times> World" where
  "resourceRow env hasAttrs attributes r w =
     (let resourceItem = [Type r, ID r];
          resourceItem = (case CreatedAt r of
                            Some t \<Rightarrow> resourceItem @ [Format t]
                          | None \<Rightarrow> resourceItem @ [''''])
      in attributeLoop env hasAttrs r attributes resourceItem w)"

fun resourceLoop :: "Env \<Rightarrow> attrMap \<Rightarrow> string list \<Rightarrow> Resource list \<Rightarrow> csvWriter \<Rightarrow> World \<Rightarrow> csvWriter outcome" where
  "resourceLoop env hasAttrs attributes [] cw w = Normal cw w"
| "resourceLoop env hasAttrs attributes (r # rs) cw w =
     (case resourceRow env hasAttrs attributes r w of
        (resourceItem, w') \<Rightarrow>
          (case Write env cw resourceItem of
             Inl err \<Rightarrow> Panicked err w'
           | Inr cw' \<Rightarrow> resourceLoop env hasAttrs attributes rs cw' w'))"

text \<open>
  \<^verbatim>\<open>printResourcesCsv\<close>: make the directory, create (and so truncate) the file named after
  \<^verbatim>\<open>resourceTypePattern\<close>, write the header and the rows, flush them into the file and
  report the file's name on standard output. Each failure of the file system or of the
  writer is a panic; before the flush the file holds no record.
\<close>

definition csvPath :: "string \<Rightarrow> string" where
  "csvPath resourceTypePattern = Join ''aws-resources/'' (resourceTypePattern @ ''.csv'')"

definition printResourcesCsv :: "Env \<Rightarrow> string \<Rightarrow> Resource list \<Rightarrow> attrMap \<Rightarrow> string list \<Rightarrow> World \<Rightarrow> unit outcome" where
  "printResourcesCsv env resourceTypePattern resources hasAttrs attributes w =
     (let filePath = csvPath resourceTypePattern
      in case MkdirAll env ''aws-resources/'' of
           Some err \<Rightarrow> Panicked err w
         | None \<Rightarrow>
             (let w1 = w\<lparr>dirs := insert ''aws-resources/'' (dirs w)\<rparr>
              in case Create env filePath of
                   Some err \<Rightarrow> Panicked err w1
                 | None \<Rightarrow>
                     (let w2 = w1\<lparr>files := (files w1)(filePath \<mapsto> [])\<rparr>
                      in case printHeaderCsv env [] attributes w2 of
                           Panicked err w3 \<Rightarrow> Panicked err w3
                         | Normal cw w3 \<Rightarrow>
                             (case resourceLoop env hasAttrs attributes resources cw w3 of
                                Panicked err w4 \<Rightarrow> Panicked err w4
                              | Normal cw' w4 \<Rightarrow>
                                  Normal () (w4\<lparr>files := (files w4)(filePath \<mapsto> cw'),
                                               stdout := stdout w4 @ [''printed csv file into '' @ filePath @ '' '' @ newline]\<rparr>)))))"

section \<open>\<^verbatim>\<open>printResource\<close>\<close>

text \<open>
  The body of the loop over the clients, for one client: a failure of \<^verbatim>\<open>SetAccountID\<close> is
  reported and panics; a failure of the listing is reported and the client is left
  (\<^verbatim>\<open>continue\<close>); \<^verbatim>\<open>hasAttrs\<close> is assigned from \<^verbatim>\<open>HasAttributes\<close>, whose failure is
  reported and leaves the client too, before its resources are appended; the state is
  fetched when the map has an entry; the resources are appended.
\<close>

definition clientBody ::
  "Env \<Rightarrow> string list \<Rightarrow> string \<Rightarrow> AWSClientKey \<Rightarrow> Resource list \<Rightarrow> attrMap \<Rightarrow> World
     \<Rightarrow> (Resource list \<times> attrMap) outcome" where
  "clientBody env attributes rType key resources hasAttrs w =
     (case SetAccountID env key of
        Some err \<Rightarrow>
          Panicked err (Fprint_Stderr (RedString env (''Error '' @ rType @ '': '' @ err @ newline)) w)
      | None \<Rightarrow>
          (case ListResourcesByType env key rType of
             Inl err \<Rightarrow>
               Normal (resources, hasAttrs)
                 (Fprint_Stderr (RedString env (''Error '' @ rType @ '': '' @ err @ newline)) w)
           | Inr res \<Rightarrow>
               (case HasAttributes env attributes rType key of
                  (hasAttrs', Some err) \<Rightarrow>
                    Normal (resources, hasAttrs')
                      (Fprint_Stderr (RedString env
                         (''Error: failed to check if resource type has attribute: '' @ err @ newline)) w)
                | (hasAttrs', None) \<Rightarrow>
                    (if 0 < len hasAttrs' then
                       Normal (resources @ GetStates env res, hasAttrs') (w\<lparr>hydrations := hydrations w @ [res]\<rparr>)
                     else Normal (resources @ res, hasAttrs') w))))"

fun clientLoop ::
  "Env \<Rightarrow> string list \<Rightarrow> string \<Rightarrow> AWSClientKey list \<Rightarrow> Resource list \<Rightarrow> attrMap \<Rightarrow> World
     \<Rightarrow> (Resource list \<times> attrMap) outcome" where
  "clientLoop env attributes rType [] resources hasAttrs w = Normal (resources, hasAttrs) w"
| "clientLoop env attributes rType (key # keys) resources hasAttrs w =
     (case clientBody env attributes rType key resources hasAttrs w of
        Panicked err w' \<Rightarrow> Panicked err w'
      | Normal (resources', hasAttrs') w' \<Rightarrow> clientLoop env attributes rType keys resources' hasAttrs' w')"

text \<open>
  The body of the loop over the matched types: \<^verbatim>\<open>resources\<close> and \<^verbatim>\<open>hasAttrs\<close> start nil, the
  clients are ranged over, and unless no resource was collected the file is written, under
  the name of the pattern.
\<close>

definition typeBody ::
  "Env \<Rightarrow> string \<Rightarrow> string list \<Rightarrow> AWSClientKey list \<Rightarrow> string \<Rightarrow> World \<Rightarrow> unit outcome" where
  "typeBody env resourceTypePattern attributes keys rType w =
     (case clientLoop env attributes rType keys [] fmempty w of
        Panicked err w' \<Rightarrow> Panicked err w'
      | Normal (resources, hasAttrs) w' \<Rightarrow>
          (if length resources = 0 then Normal () w'
           else printResourcesCsv env resourceTypePattern resources hasAttrs attributes w'))"

fun typeLoop ::
  "Env \<Rightarrow> string \<Rightarrow> string list \<Rightarrow> AWSClientKey list \<Rightarrow> string list \<Rightarrow> World \<Rightarrow> unit outcome" where
  "typeLoop env resourceTypePattern attributes clients [] w = Normal () w"
| "typeLoop env resourceTypePattern attributes clients (rType # rTypes) w =
     (case typeBody env resourceTypePattern attributes (rangeClients env clients rType) rType w of
        Panicked err w' \<Rightarrow> Panicked err w'
      | Normal u w' \<Rightarrow> typeLoop env resourceTypePattern attributes clients rTypes w')"

definition printResource :: "Env \<Rightarrow> string \<Rightarrow> string list \<Rightarrow> AWSClientKey list \<Rightarrow> World \<Rightarrow> unit outcome" where
  "printResource env resourceTypePattern attributes clients w =
     (case MatchSupportedTypes env resourceTypePattern of
        Inl err \<Rightarrow>
          Panicked err
            (Fprint_Stderr (RedString env (''Error: invalid glob pattern: '' @ resourceTypePattern @ newline)) w)
      | Inr matchedTypes \<Rightarrow>
          (let w1 = (if length matchedTypes = 0
                     then Fprint_Stderr (RedString env
                            (''Error: no resource type found: '' @ resourceTypePattern @ newline)) w
                     else w)
           in typeLoop env resourceTypePattern attributes clients matchedTypes w1))"

section \<open>\<^verbatim>\<open>mainExitCode\<close> and \<^verbatim>\<open>main\<close>\<close>

text \<open>The flags after parsing; a list flag that was not given is nil.\<close>

record Flags =
  logDebug :: bool
  allProfilesFlag :: bool
  profiles :: "string list option"
  regions :: "string list option"
  version :: bool

definition Println :: "string \<Rightarrow> World \<Rightarrow> World" where
  "Println s w = w\<lparr>stdout := stdout w @ [s @ newline]\<rparr>"

definition help_const :: string where
  "help_const = newline @ ''awsls - list AWS resources.'' @ newline @ newline @ ''USAGE:'' @ newline @
     ''  $ awsls [flags] <resource_type glob pattern>'' @ newline @ newline @ ''FLAGS:'' @ newline"

definition isSpace :: "char \<Rightarrow> bool" where
  "isSpace c = (c \<in> set [CHR '' '', CHR 0x09, CHR 0x0A, CHR 0x0B, CHR 0x0C, CHR 0x0D])"

definition TrimSpace :: "string \<Rightarrow> string" where
  "TrimSpace s = rev (dropWhile isSpace (rev (dropWhile isSpace s)))"

definition printHelp :: "Env \<Rightarrow> World \<Rightarrow> World" where
  "printHelp env w = Fprint_Stderr (PrintDefaults env) (Fprint_Stderr (newline @ TrimSpace help_const @ newline) w)"

text \<open>
  The deferred calls run when \<^verbatim>\<open>mainExitCode\<close> returns and when it panics, last registered
  first: the providers are closed, if the pool was built, and an empty line is printed.
\<close>

fun deferred :: "(World \<Rightarrow> World) \<Rightarrow> 'a outcome \<Rightarrow> 'a outcome" where
  "deferred f (Normal x w) = Normal x (f w)"
| "deferred f (Panicked err w) = Panicked err (f w)"

definition closeProviders :: "AWSClientKey list \<Rightarrow> World \<Rightarrow> World" where
  "closeProviders providers w = w\<lparr>closed := closed w @ providers\<rparr>"

text \<open>
  Everything \<^verbatim>\<open>mainExitCode\<close> does before it calls \<^verbatim>\<open>printResource\<close>: the flags are
  validated, the profiles found, and the two pools built. The result is either the exit
  code of an early return or the keys of the client pool and of the provider pool.
\<close>

definition pools ::
  "Env \<Rightarrow> Flags \<Rightarrow> string list option \<Rightarrow> World \<Rightarrow> (int \<times> World) + (AWSClientKey list \<times> AWSClientKey list \<times> World)" where
  "pools env flags profiles' w =
     (case NewAWSClientPool env profiles' (regions flags) of
        Inl err \<Rightarrow> Inl (1, Fprint_Stderr (RedString env (newline @ ''Error: '' @ err @ newline)) w)
      | Inr clients \<Rightarrow>
          (case NewProviderPool env clients of
             Inl err \<Rightarrow> Inl (1, Fprint_Stderr (RedString env (newline @ ''Error: '' @ err @ newline)) w)
           | Inr providers \<Rightarrow> Inr (clients, providers, w)))"

definition prepare ::
  "Env \<Rightarrow> Flags \<Rightarrow> World \<Rightarrow> (int \<times> World) + (AWSClientKey list \<times> AWSClientKey list \<times> World)" where
  "prepare env flags w =
     (if version flags then Inl (0, Println (BuildVersionString env) w)
      else if profiles flags \<noteq> None \<and> allProfilesFlag flags = True then
        Inl (1, printHelp env (Fprint_Stderr (RedString env
          (''Error:'' @ [CHR 0xC3, CHR 0xAF, CHR 0xC2, CHR 0xB8] @
           '' --profiles and --all-profiles flag cannot be used together'' @ newline)) w))
      else
        (let profiles1 = (if profiles flags = None \<and> allProfilesFlag flags = False
                          then (case LookupEnv env ''AWS_PROFILE'' of
                                  Some e \<Rightarrow> Some [e]
                                | None \<Rightarrow> profiles flags)
                          else profiles flags)
         in if allProfilesFlag flags then
              (let awsConfigPath = (case LookupEnv env ''AWS_CONFIG_FILE'' of
                                      Some awsConfigFileEnv \<Rightarrow> [awsConfigFileEnv]
                                    | None \<Rightarrow> [])
               in case GetAWSProfiles env awsConfigPath of
                    Inl err \<Rightarrow>
                      Inl (1, Fprint_Stderr (RedString env
                        (''Error: failed to load all profiles: '' @ err @ newline)) w)
                  | Inr None \<Rightarrow>
                      Inl (1, Fprint_Stderr (RedString env
                        (''Error: no profiles found in ~/.aws/config'' @ newline)) w)
                  | Inr (Some profilesFromConfig) \<Rightarrow> pools env flags (Some profilesFromConfig) w)
            else pools env flags profiles1 w))"

definition mainBody :: "Env \<Rightarrow> Flags \<Rightarrow> World \<Rightarrow> int outcome" where
  "mainBody env flags w =
     (case prepare env flags w of
        Inl (code, w') \<Rightarrow> Normal code w'
      | Inr (clients, providers, w') \<Rightarrow>
          deferred (closeProviders providers)
            (let attributes = [''private_ip'', ''public_ip'', ''tags'']
             in case printResource env ''aws_instance'' attributes clients w' of
                  Panicked err w'' \<Rightarrow> Panicked err w''
                | Normal u w'' \<Rightarrow> Normal 0 w''))"

definition mainExitCode :: "Env \<Rightarrow> Flags \<Rightarrow> World \<Rightarrow> int outcome" where
  "mainExitCode env flags w = deferred (Println []) (mainBody env flags (Println [] w))"

text \<open>
  \<^verbatim>\<open>main\<close> passes the value of \<^verbatim>\<open>mainExitCode\<close> to \<^verbatim>\<open>os.Exit\<close>. A panic that nothing recovers
  ends a Go program with exit status 2, after the runtime has printed the panic on the
  error stream.
\<close>

fun exitStatus :: "int outcome \<Rightarrow> int" where
  "exitStatus (Normal code w) = code"
| "exitStatus (Panicked err w) = 2"

definition main :: "Env \<Rightarrow> Flags \<Rightarrow> World \<Rightarrow> int" where
  "main env flags w = exitStatus (mainExitCode env flags w)"

section \<open>Notions used in the statements\<close>

text \<open>The effects before anything has happened.\<close>

definition noEffects :: World where
  "noEffects = \<lparr>stderr = [], stdout = [], logged = [], dirs = {}, files = Map.empty, hydrations = [], closed = []\<rparr>"

text \<open>
  The column, the row and the log entries that \<^verbatim>\<open>printResourcesCsv\<close> produces for an attribute
  and for a resource, read off \<open>attributeValue\<close> and \<open>resourceRow\<close>: they do not depend on the
  effects so far.
\<close>

definition column :: "Env \<Rightarrow> attrMap \<Rightarrow> Resource \<Rightarrow> string \<Rightarrow> string" where
  "column env hasAttrs r attr = fst (attributeValue env hasAttrs r attr noEffects)"

definition columnLog :: "Env \<Rightarrow> attrMap \<Rightarrow> Resource \<Rightarrow> string \<Rightarrow> LogEntry list" where
  "columnLog env hasAttrs r attr = logged (snd (attributeValue env hasAttrs r attr noEffects))"

definition rowOf :: "Env \<Rightarrow> attrMap \<Rightarrow> string list \<Rightarrow> Resource \<Rightarrow> string list" where
  "rowOf env hasAttrs attributes r = fst (resourceRow env hasAttrs attributes r noEffects)"

definition rowLog :: "Env \<Rightarrow> attrMap \<Rightarrow> string list \<Rightarrow> Resource \<Rightarrow> LogEntry list" where
  "rowLog env hasAttrs attributes r = logged (snd (resourceRow env hasAttrs attributes r noEffects))"

definition addLogs :: "LogEntry list \<Rightarrow> World \<Rightarrow> World" where
  "addLogs es w = w\<lparr>logged := logged w @ es\<rparr>"

text \<open>
  What one client adds to the resources of a type, and whether \<^verbatim>\<open>GetStates\<close> is called for
  it, read off \<open>clientBody\<close> for a client whose account is resolved.
\<close>

definition contribution :: "Env \<Rightarrow> string list \<Rightarrow> string \<Rightarrow> AWSClientKey \<Rightarrow> Resource list" where
  "contribution env attrs rType k =
     (case ListResourcesByType env k rType of
        Inl e \<Rightarrow> []
      | Inr res \<Rightarrow> (case HasAttributes env attrs rType k of
                     (m, Some e) \<Rightarrow> []
                   | (m, None) \<Rightarrow> if fmdom m \<noteq> {||} then GetStates env res else res))"

definition hydrating :: "Env \<Rightarrow> string list \<Rightarrow> string \<Rightarrow> AWSClientKey \<Rightarrow> bool" where
  "hydrating env attrs rType k =
     (case ListResourcesByType env k rType of
        Inl e \<Rightarrow> False
      | Inr res \<Rightarrow> (case HasAttributes env attrs rType k of
                     (m, Some e) \<Rightarrow> False
                   | (m, None) \<Rightarrow> fmdom m \<noteq> {||}))"

section \<open>A concrete run\<close>

text \<open>
  Two clients, \<open>dev\<close> and \<open>prod\<close>, each with one resource of every type. The provider of
  \<open>dev\<close> knows the three requested attributes, the provider of \<open>prod\<close> only \<^verbatim>\<open>tags\<close>. The
  state a provider returns has a private address and tags but no public address, so the
  extraction of \<^verbatim>\<open>public_ip\<close> fails. The pattern \<^verbatim>\<open>aws_*\<close> matches two types and
  \<^verbatim>\<open>[a\<close> is malformed.
\<close>

definition dev :: AWSClientKey where
  "dev = AWSClientKey ''dev'' ''us-east-1''"

definition prod :: AWSClientKey where
  "prod = AWSClientKey ''prod'' ''eu-west-1''"

definition requested :: "string list" where
  "requested = [''private_ip'', ''public_ip'', ''tags'']"

definition instanceOf :: "AWSClientKey \<Rightarrow> string \<Rightarrow> Resource" where
  "instanceOf key rType = \<lparr>Type = rType, ID = Profile key @ ''-1'', CreatedAt = None, State = None\<rparr>"

definition scenario :: Env where
  "scenario =
     \<lparr>MatchSupportedTypes =
        (\<lambda>p. if p = ''aws_instance'' then Inr [''aws_instance'']
             else if p = ''aws_*'' then Inr [''aws_instance'', ''aws_vpc'']
             else if p = ''[a'' then Inl ''unexpected end of input''
             else Inr []),
      SetAccountID = (\<lambda>key. None),
      ListResourcesByType = (\<lambda>key rType. Inr [instanceOf key rType]),
      HasAttributes =
        (\<lambda>attributes rType key.
           if key = dev then (fmupd ''private_ip'' True (fmupd ''public_ip'' True (fmupd ''tags'' True fmempty)), None)
           else (fmupd ''tags'' True fmempty, None)),
      GetStates = map (\<lambda>r. r\<lparr>State := Some [(''private_ip'', ''10.0.0.7''), (''tags'', ''{}'')]\<rparr>),
      GetAttribute =
        (\<lambda>attr r. case State r of
                     None \<Rightarrow> Inl ''no state''
                   | Some s \<Rightarrow> (case map_of s attr of None \<Rightarrow> Inl ''no such attribute'' | Some v \<Rightarrow> Inr v)),
      RedString = (\<lambda>s. s),
      MkdirAll = (\<lambda>path. None),
      Create = (\<lambda>path. None),
      csvWriteError = (\<lambda>record. None),
      rangeClients = (\<lambda>clients rType. clients),
      LookupEnv = (\<lambda>name. None),
      GetAWSProfiles = (\<lambda>paths. Inr (Some [''dev'', ''prod''])),
      NewAWSClientPool = (\<lambda>profiles regions. Inr [dev, prod]),
      NewProviderPool = (\<lambda>keys. Inr keys),
      BuildVersionString = ''awsls'',
      PrintDefaults = []\<rparr>"

definition noFlags :: Flags where
  "noFlags = \<lparr>logDebug = False, allProfilesFlag = False, profiles = None, regions = None, version = False\<rparr>"

text \<open>The same run with an account that cannot be resolved, and with every listing failing.\<close>

definition brokenAccount :: Env where
  "brokenAccount = scenario\<lparr>SetAccountID := (\<lambda>key. if key = prod then Some ''no credentials'' else None)\<rparr>"

definition throttled :: Env where
  "throttled = scenario\<lparr>ListResourcesByType := (\<lambda>key rType. Inl ''throttled'')\<rparr>"

text \<open>
  The same run with the schema query of \<open>prod\<close> failing, and with providers that know none
  of the requested attributes.
\<close>

definition schemaDown :: Env where
  "schemaDown = scenario\<lparr>HasAttributes :=
     (\<lambda>attributes rType key. if key = prod then (fmempty, Some ''schema unavailable'')
                             else HasAttributes scenario attributes rType key)\<rparr>"

definition noSupport :: Env where
  "noSupport = scenario\<lparr>HasAttributes := (\<lambda>attributes rType key. (fmempty, None))\<rparr>"

section \<open>The rows of the file\<close>

lemma addLogs_Nil: "addLogs [] w = w"
  by (simp add: addLogs_def)

declare addLogs_Nil [simp]

lemma addLogs_addLogs: "addLogs es (addLogs ds w) = addLogs (ds @ es) w"
  by (simp add: addLogs_def)

declare addLogs_addLogs [simp]

lemma attributeValue_eq:
  "attributeValue env h r a w = (column env h r a, addLogs (columnLog env h r a) w)"
  by (simp add: attributeValue_def column_def columnLog_def addLogs_def noEffects_def split: sum.splits)

lemma attributeLoop_eq:
  "attributeLoop env h r attrs item w =
     (item @ map (column env h r) attrs, addLogs (concat (map (columnLog env h r) attrs)) w)"
  by (induction attrs arbitrary: item w) (simp_all add: attributeValue_eq)

lemma resourceRow_eq:
  "resourceRow env h attrs r w = (rowOf env h attrs r, addLogs (rowLog env h attrs r) w)"
  by (simp add: resourceRow_def rowOf_def rowLog_def attributeLoop_eq Let_def addLogs_def noEffects_def split: option.splits)

lemma rowOf_eq:
  "rowOf env h attrs r =
     [Type r, ID r, (case CreatedAt r of Some t \<Rightarrow> Format t | None \<Rightarrow> [])] @ map (column env h r) attrs"
  by (simp add: rowOf_def resourceRow_def attributeLoop_eq Let_def split: option.splits)

lemma rowLog_eq:
  "rowLog env h attrs r = concat (map (columnLog env h r) attrs)"
  by (simp add: rowLog_def resourceRow_def attributeLoop_eq addLogs_def noEffects_def Let_def split: option.splits)

lemma resourceLoop_Normal:
  "resourceLoop env h attrs rs cw w = Normal cw' w' \<Longrightarrow>
     cw' = cw @ map (rowOf env h attrs) rs \<and> w' = addLogs (concat (map (rowLog env h attrs) rs)) w"
proof (induction rs arbitrary: cw w)
  case Nil
  then show ?case by simp
next
  case (Cons r rs)
  from Cons.prems have ok: "csvWriteError env (rowOf env h attrs r) = None"
    by (simp add: resourceRow_eq Write_def split: option.splits)
  with Cons.prems have "resourceLoop env h attrs rs (cw @ [rowOf env h attrs r]) (addLogs (rowLog env h attrs r) w) = Normal cw' w'"
    by (simp add: resourceRow_eq Write_def)
  from Cons.IH [OF this] show ?case by simp
qed

lemma resourceLoop_total:
  "\<forall>record. csvWriteError env record = None \<Longrightarrow>
     resourceLoop env h attrs rs cw w =
       Normal (cw @ map (rowOf env h attrs) rs) (addLogs (concat (map (rowLog env h attrs) rs)) w)"
  by (induction rs arbitrary: cw w) (simp_all add: resourceRow_eq Write_def)

lemma header_eq:
  "foldl (\<lambda>header attribute. header @ [attribute]) hd0 attributes = hd0 @ attributes"
  by (induction attributes arbitrary: hd0) simp_all

section \<open>The loop over the clients\<close>

lemma len_pos: "(0 < len m) = (fmdom m \<noteq> {||})"
  unfolding len_def
  by (metis fcard_fempty fcard_seteq fempty_fsubsetI gr0I gr_implies_not0 le_zero_eq)

lemma clientBody_panic:
  "SetAccountID env key = Some err \<Longrightarrow>
     clientBody env attrs rType key rs h w =
       Panicked err (Fprint_Stderr (RedString env (''Error '' @ rType @ '': '' @ err @ newline)) w)"
  by (simp add: clientBody_def)

lemma clientBody_list_fail:
  "SetAccountID env key = None \<Longrightarrow> ListResourcesByType env key rType = Inl err \<Longrightarrow>
     clientBody env attrs rType key rs h w =
       Normal (rs, h) (Fprint_Stderr (RedString env (''Error '' @ rType @ '': '' @ err @ newline)) w)"
  by (simp add: clientBody_def)

lemma clientBody_schema_fail:
  "SetAccountID env key = None \<Longrightarrow> ListResourcesByType env key rType = Inr res \<Longrightarrow>
   HasAttributes env attrs rType key = (m, Some err) \<Longrightarrow>
     clientBody env attrs rType key rs h w =
       Normal (rs, m) (Fprint_Stderr (RedString env
         (''Error: failed to check if resource type has attribute: '' @ err @ newline)) w)"
  by (simp add: clientBody_def)

lemma clientBody_hydrate:
  "SetAccountID env key = None \<Longrightarrow> ListResourcesByType env key rType = Inr res \<Longrightarrow>
   HasAttributes env attrs rType key = (m, None) \<Longrightarrow> fmdom m \<noteq> {||} \<Longrightarrow>
     clientBody env attrs rType key rs h w =
       Normal (rs @ GetStates env res, m) (w\<lparr>hydrations := hydrations w @ [res]\<rparr>)"
  by (simp add: clientBody_def len_pos)

lemma clientBody_plain:
  "SetAccountID env key = None \<Longrightarrow> ListResourcesByType env key rType = Inr res \<Longrightarrow>
   HasAttributes env attrs rType key = (m, None) \<Longrightarrow> fmdom m = {||} \<Longrightarrow>
     clientBody env attrs rType key rs h w = Normal (rs @ res, m) w"
  by (simp add: clientBody_def len_pos)

lemmas clientBody_simps = clientBody_def len_pos Fprint_Stderr_def


lemma clientLoop_Cons_Normal:
  "clientLoop env attrs rType (k # keys) rs h w = Normal x w' \<Longrightarrow>
     \<exists>rs1 h1 w1. clientBody env attrs rType k rs h w = Normal (rs1, h1) w1 \<and>
                 clientLoop env attrs rType keys rs1 h1 w1 = Normal x w'"
  by (auto split: outcome.splits prod.splits)

lemma clientBody_Normal:
  assumes "clientBody env attrs rType k rs h w = Normal (rs1, h1) w1"
  shows "SetAccountID env k = None"
    and "rs1 = rs @ contribution env attrs rType k"
    and "h1 = (if isl (ListResourcesByType env k rType) then h else fst (HasAttributes env attrs rType k))"
    and "length (hydrations w1) = length (hydrations w) + (if hydrating env attrs rType k then 1 else 0)"
    and "\<exists>hs. hydrations w1 = hydrations w @ hs"
    and "files w1 = files w" and "stdout w1 = stdout w" and "logged w1 = logged w"
    and "dirs w1 = dirs w" and "closed w1 = closed w"
    and "set (stderr w) \<subseteq> set (stderr w1)"
  using assms
  by (auto simp: clientBody_simps contribution_def hydrating_def
           split: option.splits sum.splits prod.splits if_splits)

lemma clientLoop_Normal_SetAccountID:
  "clientLoop env attrs rType keys rs h w = Normal x w' \<Longrightarrow> k \<in> set keys \<Longrightarrow> SetAccountID env k = None"
proof (induction keys arbitrary: rs h w)
  case Nil
  then show ?case by simp
next
  case (Cons a keys)
  from clientLoop_Cons_Normal [OF Cons.prems(1)] obtain rs1 h1 w1
    where b: "clientBody env attrs rType a rs h w = Normal (rs1, h1) w1"
      and l: "clientLoop env attrs rType keys rs1 h1 w1 = Normal x w'" by blast
  from clientBody_Normal(1) [OF b] Cons.IH [OF l] Cons.prems(2) show ?case by auto
qed

lemma clientLoop_unchanged:
  "clientLoop env attrs rType keys rs h w = Normal x w' \<Longrightarrow>
     files w' = files w \<and> stdout w' = stdout w \<and> logged w' = logged w \<and> dirs w' = dirs w \<and> closed w' = closed w"
proof (induction keys arbitrary: rs h w)
  case Nil
  then show ?case by simp
next
  case (Cons a keys)
  from clientLoop_Cons_Normal [OF Cons.prems(1)] obtain rs1 h1 w1
    where b: "clientBody env attrs rType a rs h w = Normal (rs1, h1) w1"
      and l: "clientLoop env attrs rType keys rs1 h1 w1 = Normal x w'" by blast
  from clientBody_Normal(6-10) [OF b] Cons.IH [OF l] show ?case by simp
qed

lemma clientLoop_stderr_mono:
  "clientLoop env attrs rType keys rs h w = Normal x w' \<Longrightarrow> set (stderr w) \<subseteq> set (stderr w')"
proof (induction keys arbitrary: rs h w)
  case Nil
  then show ?case by simp
next
  case (Cons a keys)
  from clientLoop_Cons_Normal [OF Cons.prems(1)] obtain rs1 h1 w1
    where b: "clientBody env attrs rType a rs h w = Normal (rs1, h1) w1"
      and l: "clientLoop env attrs rType keys rs1 h1 w1 = Normal x w'" by blast
  from clientBody_Normal(11) [OF b] Cons.IH [OF l] show ?case by blast
qed

lemma clientLoop_hydrations:
  "clientLoop env attrs rType keys rs h w = Normal x w' \<Longrightarrow>
     length (hydrations w') = length (hydrations w) + length (filter (hydrating env attrs rType) keys)
     \<and> (\<exists>hs. hydrations w' = hydrations w @ hs)"
proof (induction keys arbitrary: rs h w)
  case Nil
  then show ?case by simp
next
  case (Cons a keys)
  from clientLoop_Cons_Normal [OF Cons.prems(1)] obtain rs1 h1 w1
    where b: "clientBody env attrs rType a rs h w = Normal (rs1, h1) w1"
      and l: "clientLoop env attrs rType keys rs1 h1 w1 = Normal x w'" by blast
  from clientBody_Normal(4,5) [OF b] Cons.IH [OF l] show ?case by auto
qed

lemma clientLoop_hasAttrs:
  "clientLoop env attrs rType keys rs h w = Normal (rs', h') w' \<Longrightarrow>
     h' = (if filter (\<lambda>k. \<not> isl (ListResourcesByType env k rType)) keys = [] then h
           else fst (HasAttributes env attrs rType (last (filter (\<lambda>k. \<not> isl (ListResourcesByType env k rType)) keys))))"
proof (induction keys arbitrary: rs h w)
  case Nil
  then show ?case by simp
next
  case (Cons a keys)
  from clientLoop_Cons_Normal [OF Cons.prems(1)] obtain rs1 h1 w1
    where b: "clientBody env attrs rType a rs h w = Normal (rs1, h1) w1"
      and l: "clientLoop env attrs rType keys rs1 h1 w1 = Normal (rs', h') w'" by blast
  from clientBody_Normal(3) [OF b] Cons.IH [OF l] show ?case by simp
qed

lemma clientLoop_resources:
  "clientLoop env attrs rType keys rs h w = Normal (rs', h') w' \<Longrightarrow>
     rs' = rs @ concat (map (contribution env attrs rType) keys)"
proof (induction keys arbitrary: rs h w)
  case Nil
  then show ?case by simp
next
  case (Cons a keys)
  from clientLoop_Cons_Normal [OF Cons.prems(1)] obtain rs1 h1 w1
    where b: "clientBody env attrs rType a rs h w = Normal (rs1, h1) w1"
      and l: "clientLoop env attrs rType keys rs1 h1 w1 = Normal (rs', h') w'" by blast
  from clientBody_Normal(2) [OF b] Cons.IH [OF l] show ?case by simp
qed

lemma clientBody_total:
  "SetAccountID env k = None \<Longrightarrow> \<exists>rs1 h1 w1. clientBody env attrs rType k rs h w = Normal (rs1, h1) w1"
  by (auto simp: clientBody_def split: option.splits sum.splits prod.splits)

lemma clientLoop_total:
  "\<forall>k\<in>set keys. SetAccountID env k = None \<Longrightarrow> \<exists>rs' h' w'. clientLoop env attrs rType keys rs h w = Normal (rs', h') w'"
proof (induction keys arbitrary: rs h w)
  case Nil
  then show ?case by simp
next
  case (Cons a keys)
  then obtain rs1 h1 w1 where b: "clientBody env attrs rType a rs h w = Normal (rs1, h1) w1"
    using clientBody_total [of env a] by fastforce
  from Cons.IH [of rs1 h1 w1] Cons.prems b show ?case by simp
qed

lemma clientLoop_stderr_schema:
  "clientLoop env attrs rType keys rs h w = Normal x w' \<Longrightarrow> key \<in> set keys \<Longrightarrow>
   ListResourcesByType env key rType = Inr res \<Longrightarrow> HasAttributes env attrs rType key = (m, Some err) \<Longrightarrow>
     RedString env (''Error: failed to check if resource type has attribute: '' @ err @ newline) \<in> set (stderr w')"
proof (induction keys arbitrary: rs h w)
  case Nil
  then show ?case by simp
next
  case (Cons a keys)
  from clientLoop_Cons_Normal [OF Cons.prems(1)] obtain rs1 h1 w1
    where b: "clientBody env attrs rType a rs h w = Normal (rs1, h1) w1"
      and l: "clientLoop env attrs rType keys rs1 h1 w1 = Normal x w'" by blast
  show ?case
  proof (cases "key = a")
    case True
    have "SetAccountID env a = None" by (rule clientBody_Normal(1) [OF b])
    with b True Cons.prems(3,4)
    have "RedString env (''Error: failed to check if resource type has attribute: '' @ err @ newline) \<in> set (stderr w1)"
      by (auto simp: clientBody_schema_fail Fprint_Stderr_def)
    with clientLoop_stderr_mono [OF l] show ?thesis by blast
  next
    case False
    with Cons.prems(2) have "key \<in> set keys" by simp
    from Cons.IH [OF l this Cons.prems(3,4)] show ?thesis .
  qed
qed

lemma clientLoop_panic:
  "key \<in> set keys \<Longrightarrow> SetAccountID env key = Some err \<Longrightarrow>
     \<exists>e w'. clientLoop env attrs rType keys rs h w = Panicked e w' \<and>
       (\<exists>k\<in>set keys. SetAccountID env k = Some e) \<and>
       stderr w' \<noteq> [] \<and> last (stderr w') = RedString env (''Error '' @ rType @ '': '' @ e @ newline) \<and>
       files w' = files w"
proof (induction keys arbitrary: rs h w)
  case Nil
  then show ?case by simp
next
  case (Cons a keys)
  show ?case
  proof (cases "SetAccountID env a")
    case (Some e)
    then show ?thesis by (auto simp: clientBody_panic Fprint_Stderr_def)
  next
    case None
    with Cons.prems have k: "key \<in> set keys" by auto
    from None obtain rs1 h1 w1 where b: "clientBody env attrs rType a rs h w = Normal (rs1, h1) w1"
      using clientBody_total by blast
    from Cons.IH [OF k Cons.prems(2), of rs1 h1 w1] obtain e w'
      where "clientLoop env attrs rType keys rs1 h1 w1 = Panicked e w'"
        and "\<exists>k\<in>set keys. SetAccountID env k = Some e"
        and "stderr w' \<noteq> []" and "last (stderr w') = RedString env (''Error '' @ rType @ '': '' @ e @ newline)"
        and "files w' = files w1" by blast
    with b clientBody_Normal(6) [OF b] show ?thesis by auto
  qed
qed

section \<open>The file written by \<^verbatim>\<open>printResourcesCsv\<close>\<close>

lemma printHeaderCsv_Normal:
  "printHeaderCsv env cw attrs w = Normal cw' w' \<Longrightarrow>
     cw' = cw @ [[''TYPE'', ''ID'', ''CREATED''] @ attrs] \<and> w' = w"
  by (auto simp: printHeaderCsv_def header_eq Write_def Let_def split: option.splits)

lemma printHeaderCsv_total:
  "\<forall>record. csvWriteError env record = None \<Longrightarrow>
     printHeaderCsv env cw attrs w = Normal (cw @ [[''TYPE'', ''ID'', ''CREATED''] @ attrs]) w"
  by (simp add: printHeaderCsv_def header_eq Write_def Let_def)

lemma printResourcesCsv_Normal:
  assumes "printResourcesCsv env p rs h attrs w = Normal u w'"
  shows "w' = w\<lparr>logged := logged w @ concat (map (rowLog env h attrs) rs),
               dirs := insert ''aws-resources/'' (dirs w),
               files := (files w)(csvPath p \<mapsto> ([''TYPE'', ''ID'', ''CREATED''] @ attrs) # map (rowOf env h attrs) rs),
               stdout := stdout w @ [''printed csv file into '' @ csvPath p @ '' '' @ newline]\<rparr>"
proof -
  let ?w2 = "w\<lparr>dirs := insert ''aws-resources/'' (dirs w), files := (files w)(csvPath p \<mapsto> [])\<rparr>"
  from assms obtain cw w3 cw' w4
    where h: "printHeaderCsv env [] attrs ?w2 = Normal cw w3"
      and l: "resourceLoop env h attrs rs cw w3 = Normal cw' w4"
      and e: "w' = w4\<lparr>files := (files w4)(csvPath p \<mapsto> cw'),
                       stdout := stdout w4 @ [''printed csv file into '' @ csvPath p @ '' '' @ newline]\<rparr>"
    by (auto simp: printResourcesCsv_def Let_def split: option.splits outcome.splits)
  from printHeaderCsv_Normal [OF h] resourceLoop_Normal [OF l] e
  show ?thesis by (simp add: addLogs_def)
qed

lemma printResourcesCsv_file:
  assumes "printResourcesCsv env p rs h attrs w = Normal u w'"
  shows "files w' (csvPath p) = Some (([''TYPE'', ''ID'', ''CREATED''] @ attrs) # map (rowOf env h attrs) rs)"
    and "logged w' = logged w @ concat (map (rowLog env h attrs) rs)"
    and "hydrations w' = hydrations w" and "stderr w' = stderr w"
    and "q \<noteq> csvPath p \<Longrightarrow> files w' q = files w q"
  by (simp_all add: printResourcesCsv_Normal [OF assms])

lemma printResourcesCsv_total:
  assumes "MkdirAll env ''aws-resources/'' = None" and "Create env (csvPath p) = None"
      and "\<forall>record. csvWriteError env record = None"
  shows "\<exists>w'. printResourcesCsv env p rs h attrs w = Normal () w'"
  using assms
  by (simp add: printResourcesCsv_def Let_def printHeaderCsv_total resourceLoop_total)

lemma rowOf_nth:
  "length (rowOf env h attrs r) = 3 + length attrs"
  "rowOf env h attrs r ! 0 = Type r"
  "rowOf env h attrs r ! Suc 0 = ID r"
  "i < length attrs \<Longrightarrow> rowOf env h attrs r ! (3 + i) = column env h r (attrs ! i)"
  by (simp_all add: rowOf_eq nth_append)

lemma column_NA: "attr |\<notin>| fmdom h \<Longrightarrow> column env h r attr = ''N/A''"
  by (simp add: column_def attributeValue_def)

lemma column_error:
  "attr |\<in>| fmdom h \<Longrightarrow> GetAttribute env attr r = Inl err \<Longrightarrow>
     column env h r attr = ''error'' \<and> columnLog env h r attr = [Debug (Type r) (ID r) err ''failed to get attribute'']"
  by (simp add: column_def columnLog_def attributeValue_def noEffects_def)

lemma csvPath_instance: "csvPath ''aws_instance'' = ''aws-resources/aws_instance.csv''"
  by code_simp

lemma csvPath_glob: "csvPath ''aws_*'' = ''aws-resources/aws_*.csv''"
  by code_simp

lemmas scenario_simps =
  scenario_def requested_def dev_def prod_def instanceOf_def noEffects_def noFlags_def
  csvPath_instance csvPath_glob

lemmas run_simps =
  printResourcesCsv_def printHeaderCsv_def Write_def resourceRow_def attributeValue_def
  typeBody_def clientBody_def len_pos Fprint_Stderr_def printResource_def

section \<open>The claims about the rows\<close>

text \<open>
  Claim C8. Whenever \<^verbatim>\<open>printResourcesCsv\<close> returns, the file it wrote holds the header and one
  row for each resource, in order; the row of the \<open>j\<close>-th resource starts with its type and
  its id, has three columns more than there are requested attributes, and in the column of
  every requested attribute that is not a key of the support map it holds exactly \<^verbatim>\<open>N/A\<close>.
\<close>

theorem C8_unsupported_attribute_is_NA:
  assumes "printResourcesCsv env resourceTypePattern resources hasAttrs attributes w = Normal u w'"
      and "j < length resources" and "i < length attributes"
      and "attributes ! i |\<notin>| fmdom hasAttrs"
  shows "\<exists>rows. files w' (csvPath resourceTypePattern) = Some rows \<and>
           length rows = 1 + length resources \<and>
           length (rows ! (1 + j)) = 3 + length attributes \<and>
           rows ! (1 + j) ! 0 = Type (resources ! j) \<and>
           rows ! (1 + j) ! 1 = ID (resources ! j) \<and>
           rows ! (1 + j) ! (3 + i) = ''N/A''"
proof -
  let ?rows = "([''TYPE'', ''ID'', ''CREATED''] @ attributes) # map (rowOf env hasAttrs attributes) resources"
  have f: "files w' (csvPath resourceTypePattern) = Some ?rows"
    by (rule printResourcesCsv_file(1) [OF assms(1)])
  have r: "?rows ! (1 + j) = rowOf env hasAttrs attributes (resources ! j)"
    using assms(2) by simp
  have "rowOf env hasAttrs attributes (resources ! j) ! (3 + i) = ''N/A''"
    using rowOf_nth(4) [OF assms(3)] column_NA [OF assms(4)] by simp
  with f r show ?thesis
    by (simp add: rowOf_nth(1-3))
qed

theorem C8_unsupported_attribute_is_NA_witness:
  "\<exists>w' rows.
     printResourcesCsv scenario ''aws_instance'' [instanceOf prod ''aws_instance'']
       (fmupd ''tags'' True fmempty) requested noEffects = Normal () w' \<and>
     files w' ''aws-resources/aws_instance.csv'' = Some rows \<and>
     rows ! 1 ! 1 = ''prod-1'' \<and> rows ! 1 ! 3 = ''N/A''"
proof -
  let ?out = "printResourcesCsv scenario ''aws_instance'' [instanceOf prod ''aws_instance'']
                (fmupd ''tags'' True fmempty) requested noEffects"
  have n: "?out = Normal () (world ?out)"
    by (simp add: run_simps scenario_simps)
  have j: "(0::nat) < length [instanceOf prod ''aws_instance'']" by simp
  have i: "(0::nat) < length requested" by (simp add: requested_def)
  have a: "requested ! 0 |\<notin>| fmdom (fmupd ''tags'' True fmempty)" by (simp add: requested_def)
  from C8_unsupported_attribute_is_NA [OF n j i a] obtain rows
    where "files (world ?out) (csvPath ''aws_instance'') = Some rows"
      and "rows ! (1 + 0) ! 1 = ID ([instanceOf prod ''aws_instance''] ! 0)"
      and "rows ! (1 + 0) ! (3 + 0) = ''N/A''" by blast
  then have "files (world ?out) ''aws-resources/aws_instance.csv'' = Some rows \<and>
             rows ! 1 ! 1 = ''prod-1'' \<and> rows ! 1 ! 3 = ''N/A''"
    by (simp add: csvPath_instance instanceOf_def prod_def)
  with n show ?thesis by blast
qed

text \<open>
  Claim C9. When the directory can be made, the file created and the writer accepts every
  record, \<^verbatim>\<open>printResourcesCsv\<close> returns without a panic whatever \<^verbatim>\<open>resource.GetAttribute\<close>
  answers. If the extraction of an attribute that is a key of the support map fails for
  the \<open>j\<close>-th resource, the column of that attribute in the row of that resource is exactly
  \<^verbatim>\<open>error\<close>, and a debug log entry with the type and the id of the resource and the error
  has been emitted.
\<close>

theorem C9_extraction_failure_is_error:
  assumes "MkdirAll env ''aws-resources/'' = None"
      and "Create env (csvPath resourceTypePattern) = None"
      and "\<forall>record. csvWriteError env record = None"
      and "j < length resources" and "i < length attributes"
      and "attributes ! i |\<in>| fmdom hasAttrs"
      and "GetAttribute env (attributes ! i) (resources ! j) = Inl err"
  shows "\<exists>w' rows. printResourcesCsv env resourceTypePattern resources hasAttrs attributes w = Normal () w' \<and>
           files w' (csvPath resourceTypePattern) = Some rows \<and>
           length rows = 1 + length resources \<and>
           rows ! (1 + j) ! 0 = Type (resources ! j) \<and>
           rows ! (1 + j) ! 1 = ID (resources ! j) \<and>
           rows ! (1 + j) ! (3 + i) = ''error'' \<and>
           Debug (Type (resources ! j)) (ID (resources ! j)) err ''failed to get attribute'' \<in> set (logged w')"
proof -
  from printResourcesCsv_total [OF assms(1-3)] obtain w'
    where n: "printResourcesCsv env resourceTypePattern resources hasAttrs attributes w = Normal () w'"
    by blast
  from column_error [OF assms(6,7)]
  have c: "column env hasAttrs (resources ! j) (attributes ! i) = ''error''"
    and l: "columnLog env hasAttrs (resources ! j) (attributes ! i) =
              [Debug (Type (resources ! j)) (ID (resources ! j)) err ''failed to get attribute'']"
    by simp_all
  have "Debug (Type (resources ! j)) (ID (resources ! j)) err ''failed to get attribute''
          \<in> set (rowLog env hasAttrs attributes (resources ! j))"
    using assms(5) l by (auto simp: rowLog_eq intro!: bexI [of _ "attributes ! i"])
  then have "Debug (Type (resources ! j)) (ID (resources ! j)) err ''failed to get attribute'' \<in> set (logged w')"
    using assms(4) printResourcesCsv_file(2) [OF n] by (auto intro!: bexI [of _ "resources ! j"])
  moreover
  let ?rows = "([''TYPE'', ''ID'', ''CREATED''] @ attributes) # map (rowOf env hasAttrs attributes) resources"
  have f: "files w' (csvPath resourceTypePattern) = Some ?rows"
    by (rule printResourcesCsv_file(1) [OF n])
  have r: "?rows ! (1 + j) = rowOf env hasAttrs attributes (resources ! j)"
    using assms(4) by simp
  have "rowOf env hasAttrs attributes (resources ! j) ! (3 + i) = ''error''"
    using rowOf_nth(4) [OF assms(5)] c by simp
  ultimately show ?thesis using n f r
    by (simp add: rowOf_nth(1-3))
qed

theorem C9_extraction_failure_is_error_witness:
  "\<exists>w' rows.
     printResourcesCsv scenario ''aws_instance'' (GetStates scenario [instanceOf dev ''aws_instance''])
       (fmupd ''public_ip'' True fmempty) requested noEffects = Normal () w' \<and>
     files w' ''aws-resources/aws_instance.csv'' = Some rows \<and>
     rows ! 1 ! 4 = ''error'' \<and>
     Debug ''aws_instance'' ''dev-1'' ''no such attribute'' ''failed to get attribute'' \<in> set (logged w')"
proof -
  let ?rs = "GetStates scenario [instanceOf dev ''aws_instance'']"
  have m: "MkdirAll scenario ''aws-resources/'' = None" by (simp add: scenario_def)
  have c: "Create scenario (csvPath ''aws_instance'') = None" by (simp add: scenario_def)
  have wr: "\<forall>record. csvWriteError scenario record = None" by (simp add: scenario_def)
  have j: "(0::nat) < length ?rs" by (simp add: scenario_def)
  have i: "(1::nat) < length requested" by (simp add: requested_def)
  have a: "requested ! 1 |\<in>| fmdom (fmupd ''public_ip'' True fmempty)" by (simp add: requested_def)
  have g: "GetAttribute scenario (requested ! 1) (?rs ! 0) = Inl ''no such attribute''"
    by (simp add: scenario_def requested_def instanceOf_def)
  from C9_extraction_failure_is_error [OF m c wr j i a g, of noEffects] obtain w' rows
    where "printResourcesCsv scenario ''aws_instance'' ?rs (fmupd ''public_ip'' True fmempty) requested noEffects
             = Normal () w'"
      and "files w' (csvPath ''aws_instance'') = Some rows"
      and "rows ! (1 + 0) ! (3 + 1) = ''error''"
      and "Debug (Type (?rs ! 0)) (ID (?rs ! 0)) ''no such attribute'' ''failed to get attribute'' \<in> set (logged w')"
    by blast
  then show ?thesis
    by (auto simp: csvPath_instance scenario_def instanceOf_def dev_def)
qed

section \<open>The loop over the types and the exit code\<close>

lemma typeBody_empty:
  "clientLoop env attrs rType keys [] fmempty w = Normal ([], h) w1 \<Longrightarrow>
     typeBody env p attrs keys rType w = Normal () w1"
  by (simp add: typeBody_def)

lemma typeBody_export:
  "clientLoop env attrs rType keys [] fmempty w = Normal (rs, h) w1 \<Longrightarrow> rs \<noteq> [] \<Longrightarrow>
     typeBody env p attrs keys rType w = printResourcesCsv env p rs h attrs w1"
  by (simp add: typeBody_def)

lemma typeBody_panic:
  "clientLoop env attrs rType keys [] fmempty w = Panicked e w1 \<Longrightarrow>
     typeBody env p attrs keys rType w = Panicked e w1"
  by (simp add: typeBody_def)

lemma typeBody_quiet:
  assumes "\<forall>key\<in>set keys. SetAccountID env key = None \<and> contribution env attrs rType key = []"
  shows "\<exists>w'. typeBody env p attrs keys rType w = Normal () w' \<and> files w' = files w"
proof -
  from assms clientLoop_total [of keys env attrs rType "[]" fmempty w] obtain rs h w1
    where l: "clientLoop env attrs rType keys [] fmempty w = Normal (rs, h) w1" by blast
  from clientLoop_resources [OF l] assms have "rs = []" by simp
  with l typeBody_empty [of env attrs rType keys w h w1 p] clientLoop_unchanged [OF l]
  show ?thesis by simp
qed

lemma typeLoop_quiet:
  "\<forall>rType\<in>set rTypes. \<forall>key\<in>set (rangeClients env clients rType).
      SetAccountID env key = None \<and> contribution env attrs rType key = [] \<Longrightarrow>
     \<exists>w'. typeLoop env p attrs clients rTypes w = Normal () w' \<and> files w' = files w"
proof (induction rTypes arbitrary: w)
  case Nil
  then show ?case by simp
next
  case (Cons rType rTypes)
  then have "\<forall>key\<in>set (rangeClients env clients rType).
               SetAccountID env key = None \<and> contribution env attrs rType key = []" by simp
  from typeBody_quiet [OF this, of p w] obtain w1
    where b: "typeBody env p attrs (rangeClients env clients rType) rType w = Normal () w1"
      and f: "files w1 = files w" by blast
  from Cons.IH [of w1] Cons.prems obtain w'
    where "typeLoop env p attrs clients rTypes w1 = Normal () w'" and "files w' = files w1" by auto
  with b f show ?case by simp
qed

lemma contribution_list_fail: "isl (ListResourcesByType env key rType) \<Longrightarrow> contribution env attrs rType key = []"
  by (auto simp: contribution_def isl_def)

lemma contribution_schema_fail: "snd (HasAttributes env attrs rType key) \<noteq> None \<Longrightarrow> contribution env attrs rType key = []"
  by (auto simp: contribution_def split: sum.splits prod.splits option.splits)

lemma prepare_Inr: "prepare env flags w = Inr (clients, providers, w1) \<Longrightarrow> w1 = w"
  by (auto simp: prepare_def pools_def Let_def split: if_splits sum.splits option.splits)

lemma mainExitCode_Normal:
  "prepare env flags (Println [] w) = Inr (clients, providers, w1) \<Longrightarrow>
   printResource env ''aws_instance'' [''private_ip'', ''public_ip'', ''tags''] clients (Println [] w) = Normal u w2 \<Longrightarrow>
     mainExitCode env flags w = Normal 0 (Println [] (closeProviders providers w2))"
  by (frule prepare_Inr) (simp add: mainExitCode_def mainBody_def)

lemma mainExitCode_Panicked:
  "prepare env flags (Println [] w) = Inr (clients, providers, w1) \<Longrightarrow>
   printResource env ''aws_instance'' [''private_ip'', ''public_ip'', ''tags''] clients (Println [] w) = Panicked e w2 \<Longrightarrow>
     mainExitCode env flags w = Panicked e (Println [] (closeProviders providers w2))"
  by (frule prepare_Inr) (simp add: mainExitCode_def mainBody_def)

lemma Println_fields:
  "files (Println s w) = files w" "stderr (Println s w) = stderr w" "hydrations (Println s w) = hydrations w"
  by (simp_all add: Println_def)

lemma closeProviders_fields:
  "files (closeProviders ps w) = files w" "stderr (closeProviders ps w) = stderr w"
  "hydrations (closeProviders ps w) = hydrations w"
  by (simp_all add: closeProviders_def)

lemma printResource_panic:
  assumes "MatchSupportedTypes env p = Inr (rType # rTypes)"
      and "key \<in> set (rangeClients env clients rType)"
      and "SetAccountID env key = Some err"
  shows "\<exists>e w'. printResource env p attrs clients w = Panicked e w' \<and>
           (\<exists>k\<in>set (rangeClients env clients rType). SetAccountID env k = Some e) \<and>
           stderr w' \<noteq> [] \<and> last (stderr w') = RedString env (''Error '' @ rType @ '': '' @ e @ newline) \<and>
           files w' = files w"
proof -
  from clientLoop_panic [OF assms(2,3), where attrs = attrs and rs = "[]" and h = fmempty and w = w] obtain e w'
    where l: "clientLoop env attrs rType (rangeClients env clients rType) [] fmempty w = Panicked e w'"
      and r: "\<exists>k\<in>set (rangeClients env clients rType). SetAccountID env k = Some e"
             "stderr w' \<noteq> []" "last (stderr w') = RedString env (''Error '' @ rType @ '': '' @ e @ newline)"
             "files w' = files w" by blast
  from typeBody_panic [OF l, of p] assms(1)
  have "printResource env p attrs clients w = Panicked e w'"
    by (simp add: printResource_def)
  with r show ?thesis by blast
qed

section \<open>The claims about errors and the exit code\<close>

text \<open>
  Claim C7. When the pattern matches no resource type, \<^verbatim>\<open>printResource\<close> reports it on the
  error stream and returns without a panic: nothing else is written, no directory is made,
  no file is created and no state is fetched. The caller goes on to return 0.
\<close>

theorem C7_zero_matches_is_not_fatal:
  assumes "MatchSupportedTypes env resourceTypePattern = Inr []"
  shows "\<exists>w'. printResource env resourceTypePattern attributes clients w = Normal () w' \<and>
           stderr w' = stderr w @ [RedString env (''Error: no resource type found: '' @ resourceTypePattern @ newline)] \<and>
           files w' = files w \<and> dirs w' = dirs w \<and> stdout w' = stdout w \<and> hydrations w' = hydrations w"
  using assms by (simp add: printResource_def Fprint_Stderr_def)

theorem C7_zero_matches_is_not_fatal_witness:
  "\<exists>w'. printResource scenario ''aws_lambda'' requested [dev, prod] noEffects = Normal () w' \<and>
     stderr w' = [''Error: no resource type found: aws_lambda'' @ newline] \<and> files w' = Map.empty"
proof -
  have m: "MatchSupportedTypes scenario ''aws_lambda'' = Inr []" by (simp add: scenario_def)
  from C7_zero_matches_is_not_fatal [OF m, of requested "[dev, prod]" noEffects]
  show ?thesis by (auto simp: scenario_def noEffects_def)
qed

text \<open>
  Claim C6, as the code has it. When \<^verbatim>\<open>resource.MatchSupportedTypes\<close> rejects the pattern,
  \<^verbatim>\<open>printResource\<close> reports the invalid pattern on the error stream and then panics with the
  error: the run does not continue. No client is asked and no file is written.
\<close>

theorem C6_invalid_pattern_panics:
  assumes "MatchSupportedTypes env resourceTypePattern = Inl err"
  shows "\<exists>w'. printResource env resourceTypePattern attributes clients w = Panicked err w' \<and>
           stderr w' = stderr w @ [RedString env (''Error: invalid glob pattern: '' @ resourceTypePattern @ newline)] \<and>
           files w' = files w \<and> dirs w' = dirs w \<and> stdout w' = stdout w \<and> hydrations w' = hydrations w"
  using assms by (simp add: printResource_def Fprint_Stderr_def)

theorem C6_invalid_pattern_panics_witness:
  "\<exists>w'. printResource scenario ''[a'' requested [dev, prod] noEffects = Panicked ''unexpected end of input'' w' \<and>
     stderr w' = [''Error: invalid glob pattern: [a'' @ newline] \<and> files w' = Map.empty"
proof -
  have m: "MatchSupportedTypes scenario ''[a'' = Inl ''unexpected end of input''" by (simp add: scenario_def)
  from C6_invalid_pattern_panics [OF m, of requested "[dev, prod]" noEffects]
  show ?thesis by (auto simp: scenario_def noEffects_def)
qed

text \<open>
  The claim as stated says that the run continues after a malformed pattern. On the
  pattern \<^verbatim>\<open>[a\<close> of the concrete run \<^verbatim>\<open>printResource\<close> panics.
\<close>

theorem C6_invalid_pattern_counterexample:
  "panicked (printResource scenario ''[a'' requested [dev, prod] noEffects)"
  by (simp add: printResource_def scenario_def)

text \<open>
  Claim C5, as the code has it. After a successful set-up, when the pattern matches at
  least one type and some client in the iteration for the first type cannot resolve its
  account, \<^verbatim>\<open>mainExitCode\<close> does not return: it panics with the error of the first such client,
  after reporting it on the error stream with the type; no file has been written. The
  process ends with the exit status of a panic, 2, not with 1.
\<close>

theorem C5_account_failure_panics:
  assumes "prepare env flags (Println [] w) = Inr (clients, providers, w1)"
      and "MatchSupportedTypes env ''aws_instance'' = Inr (rType # rTypes)"
      and "key \<in> set (rangeClients env clients rType)"
      and "SetAccountID env key = Some err"
  shows "\<exists>e w'. mainExitCode env flags w = Panicked e w' \<and>
           (\<exists>k\<in>set (rangeClients env clients rType). SetAccountID env k = Some e) \<and>
           RedString env (''Error '' @ rType @ '': '' @ e @ newline) \<in> set (stderr w') \<and>
           files w' = files w \<and>
           main env flags w = 2"
proof -
  from printResource_panic [OF assms(2-4), where attrs = "[''private_ip'', ''public_ip'', ''tags'']" and w = "Println [] w"]
  obtain e w2
    where p: "printResource env ''aws_instance'' [''private_ip'', ''public_ip'', ''tags''] clients (Println [] w)
                = Panicked e w2"
      and k: "\<exists>k\<in>set (rangeClients env clients rType). SetAccountID env k = Some e"
      and s: "stderr w2 \<noteq> []" "last (stderr w2) = RedString env (''Error '' @ rType @ '': '' @ e @ newline)"
      and f: "files w2 = files (Println [] w)" by blast
  have m: "mainExitCode env flags w = Panicked e (Println [] (closeProviders providers w2))"
    by (rule mainExitCode_Panicked [OF assms(1) p])
  from s have "RedString env (''Error '' @ rType @ '': '' @ e @ newline) \<in> set (stderr w2)"
    using last_in_set by metis
  with m k f show ?thesis
    by (auto simp: main_def Println_fields closeProviders_fields)
qed

theorem C5_account_failure_panics_witness:
  "\<exists>w'. mainExitCode brokenAccount noFlags noEffects = Panicked ''no credentials'' w' \<and>
     ''Error aws_instance: no credentials'' @ newline \<in> set (stderr w') \<and>
     files w' = Map.empty \<and>
     main brokenAccount noFlags noEffects = 2"
proof -
  have p: "prepare brokenAccount noFlags (Println [] noEffects) = Inr ([dev, prod], [dev, prod], Println [] noEffects)"
    by (simp add: prepare_def pools_def brokenAccount_def scenario_def noFlags_def)
  have m: "MatchSupportedTypes brokenAccount ''aws_instance'' = Inr [''aws_instance'']"
    by (simp add: brokenAccount_def scenario_def)
  have k: "prod \<in> set (rangeClients brokenAccount [dev, prod] ''aws_instance'')"
    by (simp add: brokenAccount_def scenario_def)
  have a: "SetAccountID brokenAccount prod = Some ''no credentials''"
    by (simp add: brokenAccount_def)
  from C5_account_failure_panics [OF p m k a] obtain e w'
    where "mainExitCode brokenAccount noFlags noEffects = Panicked e w'"
      and "\<exists>k\<in>set (rangeClients brokenAccount [dev, prod] ''aws_instance''). SetAccountID brokenAccount k = Some e"
      and "RedString brokenAccount (''Error '' @ ''aws_instance'' @ '': '' @ e @ newline) \<in> set (stderr w')"
      and "files w' = files noEffects"
      and "main brokenAccount noFlags noEffects = 2" by blast
  then show ?thesis
    by (auto simp: brokenAccount_def scenario_def noEffects_def split: if_splits)
qed

text \<open>
  The claim as stated gives exit code 1. In the concrete run in which \<open>prod\<close> cannot
  resolve its account the exit status is 2.
\<close>

theorem C5_exit_code_counterexample:
  "main brokenAccount noFlags noEffects = 2 \<and> main brokenAccount noFlags noEffects \<noteq> 1"
  by (simp add: main_def mainExitCode_def mainBody_def prepare_def pools_def Println_def closeProviders_def
        brokenAccount_def run_simps scenario_simps)

text \<open>
  Claim C10. After a successful set-up (flags valid, profiles found, both pools built),
  \<^verbatim>\<open>mainExitCode\<close> returns 0 unless it panics. In particular there is no panic, the exit
  code is 0 and no file is written whenever the pattern is accepted and, for every matched
  type, every client resolves its account and either its listing or its schema query
  fails; this covers zero matched types, every listing failing and every schema query
  failing.
\<close>

theorem C10_exit_code_zero:
  assumes "prepare env flags (Println [] w) = Inr (clients, providers, w1)"
  shows "(\<not> panicked (mainExitCode env flags w) \<longrightarrow> main env flags w = 0) \<and>
         (\<forall>matchedTypes.
            MatchSupportedTypes env ''aws_instance'' = Inr matchedTypes \<and>
            (\<forall>rType\<in>set matchedTypes. \<forall>key\<in>set (rangeClients env clients rType).
               SetAccountID env key = None \<and>
               (isl (ListResourcesByType env key rType) \<or>
                snd (HasAttributes env [''private_ip'', ''public_ip'', ''tags''] rType key) \<noteq> None)) \<longrightarrow>
            \<not> panicked (mainExitCode env flags w) \<and> main env flags w = 0 \<and>
            files (world (mainExitCode env flags w)) = files w)"
proof (intro conjI allI impI)
  let ?attrs = "[''private_ip'', ''public_ip'', ''tags'']"
  let ?w = "Println [] w"
  {
    assume n: "\<not> panicked (mainExitCode env flags w)"
    show "main env flags w = 0"
    proof (cases "printResource env ''aws_instance'' ?attrs clients ?w")
      case (Normal u w2)
      from mainExitCode_Normal [OF assms Normal] show ?thesis by (simp add: main_def)
    next
      case (Panicked e w2)
      from mainExitCode_Panicked [OF assms Panicked] n show ?thesis by simp
    qed
  }
  fix matchedTypes
  assume h: "MatchSupportedTypes env ''aws_instance'' = Inr matchedTypes \<and>
            (\<forall>rType\<in>set matchedTypes. \<forall>key\<in>set (rangeClients env clients rType).
               SetAccountID env key = None \<and>
               (isl (ListResourcesByType env key rType) \<or>
                snd (HasAttributes env ?attrs rType key) \<noteq> None))"
  then have q: "\<forall>rType\<in>set matchedTypes. \<forall>key\<in>set (rangeClients env clients rType).
                  SetAccountID env key = None \<and> contribution env ?attrs rType key = []"
    using contribution_list_fail contribution_schema_fail by blast
  let ?start = "if length matchedTypes = 0
             then Fprint_Stderr (RedString env (''Error: no resource type found: '' @ ''aws_instance'' @ newline)) ?w
             else ?w"
  from typeLoop_quiet [OF q, where p = "''aws_instance''" and w = ?start] obtain w2
    where t: "typeLoop env ''aws_instance'' ?attrs clients matchedTypes ?start = Normal () w2"
      and f: "files w2 = files ?start" by blast
  from h have "printResource env ''aws_instance'' ?attrs clients ?w =
                  typeLoop env ''aws_instance'' ?attrs clients matchedTypes ?start"
    by (simp only: printResource_def Let_def sum.case)
  with t have p: "printResource env ''aws_instance'' ?attrs clients ?w = Normal () w2"
    by (simp only:)
  have m: "mainExitCode env flags w = Normal 0 (Println [] (closeProviders providers w2))"
    by (rule mainExitCode_Normal [OF assms p])
  from f have f': "files w2 = files w"
    by (simp add: Fprint_Stderr_def Println_fields)
  from m show "\<not> panicked (mainExitCode env flags w)" by simp
  from m show "main env flags w = 0" by (simp add: main_def)
  from m f' show "files (world (mainExitCode env flags w)) = files w"
    by (simp add: Println_fields closeProviders_fields)
qed

theorem C10_exit_code_zero_witness:
  "\<not> panicked (mainExitCode scenario noFlags noEffects) \<and> main scenario noFlags noEffects = 0 \<and>
   \<not> panicked (mainExitCode throttled noFlags noEffects) \<and> main throttled noFlags noEffects = 0 \<and>
   files (world (mainExitCode throttled noFlags noEffects)) = Map.empty"
proof -
  have p1: "prepare scenario noFlags (Println [] noEffects) = Inr ([dev, prod], [dev, prod], Println [] noEffects)"
    by (simp add: prepare_def pools_def scenario_def noFlags_def)
  have n1: "\<not> panicked (mainExitCode scenario noFlags noEffects)"
    by (simp add: mainExitCode_def mainBody_def prepare_def pools_def Println_def closeProviders_def
          run_simps scenario_simps)
  have p2: "prepare throttled noFlags (Println [] noEffects) = Inr ([dev, prod], [dev, prod], Println [] noEffects)"
    by (simp add: prepare_def pools_def throttled_def scenario_def noFlags_def)
  have h2: "MatchSupportedTypes throttled ''aws_instance'' = Inr [''aws_instance''] \<and>
            (\<forall>rType\<in>set [''aws_instance'']. \<forall>key\<in>set (rangeClients throttled [dev, prod] rType).
               SetAccountID throttled key = None \<and>
               (isl (ListResourcesByType throttled key rType) \<or>
                snd (HasAttributes throttled [''private_ip'', ''public_ip'', ''tags''] rType key) \<noteq> None))"
    by (simp add: throttled_def scenario_def)
  from C10_exit_code_zero [OF p1] n1 C10_exit_code_zero [OF p2] h2
  show ?thesis by (auto simp: noEffects_def)
qed

section \<open>The claims about the loop over the clients\<close>

lemma hydrating_iff:
  "hydrating env attrs rType k =
     (\<exists>res m. ListResourcesByType env k rType = Inr res \<and> HasAttributes env attrs rType k = (m, None) \<and> fmdom m \<noteq> {||})"
  by (auto simp: hydrating_def split: sum.splits prod.splits option.splits)

lemma hydrating_support: "hydrating env attrs rType k \<Longrightarrow> fmdom (fst (HasAttributes env attrs rType k)) \<noteq> {||}"
  by (auto simp: hydrating_iff)

lemma contribution_unhydrated:
  "fmdom (fst (HasAttributes env attrs rType k)) = {||} \<Longrightarrow> r \<in> set (contribution env attrs rType k) \<Longrightarrow>
     \<exists>res. ListResourcesByType env k rType = Inr res \<and> r \<in> set res"
  by (cases "ListResourcesByType env k rType"; cases "HasAttributes env attrs rType k")
     (auto simp: contribution_def split: option.splits if_splits)

lemma contribution_listed:
  "contribution env attrs rType k \<noteq> [] \<Longrightarrow> \<not> isl (ListResourcesByType env k rType)"
  by (auto simp: contribution_def split: sum.splits)

lemma concat_map_removeAll:
  "f k = [] \<Longrightarrow> concat (map f (removeAll k ks)) = concat (map f ks)"
  by (induction ks) auto

lemma columns_no_support:
  "fmdom h = {||} \<Longrightarrow> map (column env h r) attrs = replicate (length attrs) ''N/A''"
  by (induction attrs) (simp_all add: column_NA)

lemma rowOf_no_support:
  "fmdom h = {||} \<Longrightarrow>
     rowOf env h attrs r =
       [Type r, ID r, (case CreatedAt r of Some t \<Rightarrow> Format t | None \<Rightarrow> [])] @ replicate (length attrs) ''N/A''"
  by (simp add: rowOf_eq columns_no_support)

text \<open>
  Claim C1, as the code has it. When the loop over the clients of a type ends without a
  panic, \<^verbatim>\<open>resource.GetStates\<close> has been called during it if and only if some client had its
  resources listed and its schema query answered, without an error, with a map that has
  at least one key. When the map that \<^verbatim>\<open>resource.HasAttributes\<close> returns is empty for every
  client, \<^verbatim>\<open>GetStates\<close> is not called, every collected resource is one of a listing, as
  listed, and in the file written for the type every attribute column of every row is
  \<^verbatim>\<open>N/A\<close>.
\<close>

theorem C1_hydration_when_queried_support:
  assumes "clientLoop env attributes rType keys [] fmempty w = Normal (resources, hasAttrs) w1"
  shows "((hydrations w1 \<noteq> hydrations w) =
            (\<exists>key\<in>set keys. \<exists>res m. ListResourcesByType env key rType = Inr res \<and>
                HasAttributes env attributes rType key = (m, None) \<and> fmdom m \<noteq> {||})) \<and>
         ((\<forall>key\<in>set keys. fmdom (fst (HasAttributes env attributes rType key)) = {||}) \<longrightarrow>
            hydrations w1 = hydrations w \<and>
            (\<forall>r\<in>set resources. \<exists>key\<in>set keys. \<exists>res. ListResourcesByType env key rType = Inr res \<and> r \<in> set res) \<and>
            (\<forall>u w'. typeBody env resourceTypePattern attributes keys rType w = Normal u w' \<and> resources \<noteq> [] \<longrightarrow>
               files w' (csvPath resourceTypePattern) =
                 Some (([''TYPE'', ''ID'', ''CREATED''] @ attributes) #
                       map (\<lambda>r. [Type r, ID r, (case CreatedAt r of Some t \<Rightarrow> Format t | None \<Rightarrow> [])] @
                                 replicate (length attributes) ''N/A'') resources)))"
proof (intro conjI impI)
  from clientLoop_hydrations [OF assms]
  have len: "length (hydrations w1) = length (hydrations w) + length (filter (hydrating env attributes rType) keys)"
    and pre: "\<exists>hs. hydrations w1 = hydrations w @ hs" by simp_all
  have "(hydrations w1 \<noteq> hydrations w) = (filter (hydrating env attributes rType) keys \<noteq> [])"
    using len pre by auto
  also have "\<dots> = (\<exists>key\<in>set keys. hydrating env attributes rType key)"
    by (simp add: filter_empty_conv)
  finally show "(hydrations w1 \<noteq> hydrations w) =
            (\<exists>key\<in>set keys. \<exists>res m. ListResourcesByType env key rType = Inr res \<and>
                HasAttributes env attributes rType key = (m, None) \<and> fmdom m \<noteq> {||})"
    by (simp add: hydrating_iff)
  assume none: "\<forall>key\<in>set keys. fmdom (fst (HasAttributes env attributes rType key)) = {||}"
  then have "filter (hydrating env attributes rType) keys = []"
    using hydrating_support by (auto simp: filter_empty_conv)
  with len pre show "hydrations w1 = hydrations w" by auto
  have res: "resources = concat (map (contribution env attributes rType) keys)"
    using clientLoop_resources [OF assms] by simp
  show "\<forall>r\<in>set resources. \<exists>key\<in>set keys. \<exists>res. ListResourcesByType env key rType = Inr res \<and> r \<in> set res"
    using res none contribution_unhydrated by fastforce
  have dom: "fmdom hasAttrs = {||}"
    using clientLoop_hasAttrs [OF assms] none
    by (auto split: if_splits dest: last_in_set)
  show "\<forall>u w'. typeBody env resourceTypePattern attributes keys rType w = Normal u w' \<and> resources \<noteq> [] \<longrightarrow>
               files w' (csvPath resourceTypePattern) =
                 Some (([''TYPE'', ''ID'', ''CREATED''] @ attributes) #
                       map (\<lambda>r. [Type r, ID r, (case CreatedAt r of Some t \<Rightarrow> Format t | None \<Rightarrow> [])] @
                                 replicate (length attributes) ''N/A'') resources)"
  proof (intro allI impI)
    fix u w'
    assume t: "typeBody env resourceTypePattern attributes keys rType w = Normal u w' \<and> resources \<noteq> []"
    with typeBody_export [OF assms, of resourceTypePattern]
    have "printResourcesCsv env resourceTypePattern resources hasAttrs attributes w1 = Normal u w'" by simp
    from printResourcesCsv_file(1) [OF this] dom
    show "files w' (csvPath resourceTypePattern) =
                 Some (([''TYPE'', ''ID'', ''CREATED''] @ attributes) #
                       map (\<lambda>r. [Type r, ID r, (case CreatedAt r of Some t \<Rightarrow> Format t | None \<Rightarrow> [])] @
                                 replicate (length attributes) ''N/A'') resources)"
      by (simp add: rowOf_no_support)
  qed
qed

theorem C1_hydration_when_queried_support_witness:
  "hydrations (world (clientLoop scenario requested ''aws_instance'' [dev, prod] [] fmempty noEffects)) \<noteq> [] \<and>
   hydrations (world (clientLoop noSupport requested ''aws_instance'' [dev, prod] [] fmempty noEffects)) = [] \<and>
   files (world (typeBody noSupport ''aws_instance'' requested [dev, prod] ''aws_instance'' noEffects))
     ''aws-resources/aws_instance.csv'' =
     Some [[''TYPE'', ''ID'', ''CREATED'', ''private_ip'', ''public_ip'', ''tags''],
           [''aws_instance'', ''dev-1'', '''', ''N/A'', ''N/A'', ''N/A''],
           [''aws_instance'', ''prod-1'', '''', ''N/A'', ''N/A'', ''N/A'']]"
proof -
  have "\<forall>k\<in>set [dev, prod]. SetAccountID scenario k = None" by (simp add: scenario_def)
  from clientLoop_total [OF this] obtain rs h w1
    where l1: "clientLoop scenario requested ''aws_instance'' [dev, prod] [] fmempty noEffects = Normal (rs, h) w1"
    by blast
  have "\<exists>key\<in>set [dev, prod]. \<exists>res m. ListResourcesByType scenario key ''aws_instance'' = Inr res \<and>
          HasAttributes scenario requested ''aws_instance'' key = (m, None) \<and> fmdom m \<noteq> {||}"
    by (simp add: scenario_def)
  with C1_hydration_when_queried_support [OF l1] have "hydrations w1 \<noteq> hydrations noEffects" by blast
  with l1 have a: "hydrations (world (clientLoop scenario requested ''aws_instance'' [dev, prod] [] fmempty noEffects)) \<noteq> []"
    by (simp add: noEffects_def)
  have l2: "clientLoop noSupport requested ''aws_instance'' [dev, prod] [] fmempty noEffects =
              Normal ([instanceOf dev ''aws_instance'', instanceOf prod ''aws_instance''], fmempty) noEffects"
    by (simp add: clientBody_simps noSupport_def scenario_def)
  have n: "\<forall>key\<in>set [dev, prod]. fmdom (fst (HasAttributes noSupport requested ''aws_instance'' key)) = {||}"
    by (simp add: noSupport_def)
  let ?t = "typeBody noSupport ''aws_instance'' requested [dev, prod] ''aws_instance'' noEffects"
  have t: "?t = Normal () (world ?t) \<and> [instanceOf dev ''aws_instance'', instanceOf prod ''aws_instance''] \<noteq> []"
    by (simp add: run_simps scenario_simps noSupport_def)
  from C1_hydration_when_queried_support [OF l2, of "''aws_instance''"] n t
  have "hydrations noEffects = hydrations noEffects \<and>
        files (world ?t) (csvPath ''aws_instance'') =
          Some (([''TYPE'', ''ID'', ''CREATED''] @ requested) #
                map (\<lambda>r. [Type r, ID r, (case CreatedAt r of Some t \<Rightarrow> Format t | None \<Rightarrow> [])] @
                          replicate (length requested) ''N/A'')
                    [instanceOf dev ''aws_instance'', instanceOf prod ''aws_instance''])"
    by blast
  then have b: "files (world ?t) ''aws-resources/aws_instance.csv'' =
     Some [[''TYPE'', ''ID'', ''CREATED'', ''private_ip'', ''public_ip'', ''tags''],
           [''aws_instance'', ''dev-1'', '''', ''N/A'', ''N/A'', ''N/A''],
           [''aws_instance'', ''prod-1'', '''', ''N/A'', ''N/A'', ''N/A'']]"
    by (simp add: scenario_simps numeral_3_eq_3)
  from l2 have c: "hydrations (world (clientLoop noSupport requested ''aws_instance'' [dev, prod] [] fmempty noEffects)) = []"
    by (simp add: noEffects_def)
  from a b c show ?thesis by blast
qed

text \<open>
  The claim as stated makes the support by some client's provider sufficient for the
  hydration. In the run in which every listing fails the provider of \<open>dev\<close> knows the
  requested attribute \<^verbatim>\<open>private_ip\<close>, yet \<^verbatim>\<open>GetStates\<close> is never called: the schema of a
  client whose listing failed is not asked.
\<close>

theorem C1_unqueried_support_counterexample:
  "''private_ip'' \<in> set requested \<and>
   ''private_ip'' |\<in>| fmdom (fst (HasAttributes throttled requested ''aws_instance'' dev)) \<and>
   hydrations (world (typeBody throttled ''aws_instance'' requested [dev, prod] ''aws_instance'' noEffects)) = []"
  by (simp add: run_simps scenario_simps throttled_def)

text \<open>
  Claim C3, as the code has it. When every client resolves its account, the loop over the
  clients ends without a panic although the schema query of a client failed: the failure
  is on the error stream, and the resources collected for the type are those collected
  when that client is left out of the loop, so the resources listed for it are not
  exported.
\<close>

theorem C3_schema_failure_drops_client:
  assumes "\<forall>k\<in>set keys. SetAccountID env k = None"
      and "key \<in> set keys"
      and "ListResourcesByType env key rType = Inr res"
      and "HasAttributes env attributes rType key = (m, Some err)"
  shows "\<exists>resources hasAttrs w'.
           clientLoop env attributes rType keys [] fmempty w = Normal (resources, hasAttrs) w' \<and>
           RedString env (''Error: failed to check if resource type has attribute: '' @ err @ newline)
             \<in> set (stderr w') \<and>
           (\<exists>hasAttrs0 w0.
              clientLoop env attributes rType (removeAll key keys) [] fmempty w = Normal (resources, hasAttrs0) w0)"
proof -
  from clientLoop_total [OF assms(1)] obtain resources hasAttrs w'
    where l: "clientLoop env attributes rType keys [] fmempty w = Normal (resources, hasAttrs) w'" by blast
  from assms(1) have "\<forall>k\<in>set (removeAll key keys). SetAccountID env k = None" by simp
  from clientLoop_total [OF this] obtain rs0 h0 w0
    where l0: "clientLoop env attributes rType (removeAll key keys) [] fmempty w = Normal (rs0, h0) w0" by blast
  have "contribution env attributes rType key = []"
    using assms(4) by (simp add: contribution_schema_fail)
  with clientLoop_resources [OF l] clientLoop_resources [OF l0] have "rs0 = resources"
    by (simp add: concat_map_removeAll)
  with l l0 clientLoop_stderr_schema [OF l assms(2-4)] show ?thesis by blast
qed

theorem C3_schema_failure_drops_client_witness:
  "\<exists>resources hasAttrs w'.
     clientLoop schemaDown requested ''aws_instance'' [dev, prod] [] fmempty noEffects = Normal (resources, hasAttrs) w' \<and>
     ''Error: failed to check if resource type has attribute: schema unavailable'' @ newline \<in> set (stderr w') \<and>
     (\<exists>hasAttrs0 w0.
        clientLoop schemaDown requested ''aws_instance'' [dev] [] fmempty noEffects = Normal (resources, hasAttrs0) w0)"
proof -
  have a: "\<forall>k\<in>set [dev, prod]. SetAccountID schemaDown k = None" by (simp add: schemaDown_def scenario_def)
  have k: "prod \<in> set [dev, prod]" by simp
  have l: "ListResourcesByType schemaDown prod ''aws_instance'' = Inr [instanceOf prod ''aws_instance'']"
    by (simp add: schemaDown_def scenario_def)
  have h: "HasAttributes schemaDown requested ''aws_instance'' prod = (fmempty, Some ''schema unavailable'')"
    by (simp add: schemaDown_def)
  from C3_schema_failure_drops_client [OF a k l h, of noEffects] show ?thesis
    by (simp add: schemaDown_def scenario_def dev_def prod_def)
qed

text \<open>
  The claim as stated has the resources of such a client exported with sentinels. In the
  run in which the schema query of \<open>prod\<close> fails, the listing of \<open>prod\<close> returned a resource
  and the file holds the row of \<open>dev\<close> only.
\<close>

theorem C3_fetched_resources_dropped_counterexample:
  "ListResourcesByType schemaDown prod ''aws_instance'' = Inr [instanceOf prod ''aws_instance''] \<and>
   files (world (typeBody schemaDown ''aws_instance'' requested [dev, prod] ''aws_instance'' noEffects))
     ''aws-resources/aws_instance.csv'' =
     Some [[''TYPE'', ''ID'', ''CREATED'', ''private_ip'', ''public_ip'', ''tags''],
           [''aws_instance'', ''dev-1'', '''', ''N/A'', ''N/A'', ''N/A'']]"
  by (simp add: run_simps scenario_simps schemaDown_def)

text \<open>
  Claim C4. Every client whose resources were listed replaces the support map by the map
  its own schema query returned, whatever the map was before. When the loop over the
  clients ends with some resource collected, the map handed to \<^verbatim>\<open>printResourcesCsv\<close> is the
  one returned by the schema query of the last client, in the order of the iteration,
  whose resources were listed, and the row of every collected resource, whichever client
  listed it, is built with that one map.
\<close>

theorem C4_last_schema_query_wins:
  assumes "clientLoop env attributes rType keys [] fmempty w = Normal (resources, hasAttrs) w1"
      and "resources \<noteq> []"
  shows "filter (\<lambda>k. \<not> isl (ListResourcesByType env k rType)) keys \<noteq> [] \<and>
         hasAttrs = fst (HasAttributes env attributes rType
                      (last (filter (\<lambda>k. \<not> isl (ListResourcesByType env k rType)) keys))) \<and>
         (\<forall>key rs h w0 rs' h' w0'.
            \<not> isl (ListResourcesByType env key rType) \<and>
            clientBody env attributes rType key rs h w0 = Normal (rs', h') w0' \<longrightarrow>
            h' = fst (HasAttributes env attributes rType key)) \<and>
         typeBody env resourceTypePattern attributes keys rType w =
           printResourcesCsv env resourceTypePattern resources hasAttrs attributes w1 \<and>
         (\<forall>u w'. typeBody env resourceTypePattern attributes keys rType w = Normal u w' \<longrightarrow>
            files w' (csvPath resourceTypePattern) =
              Some (([''TYPE'', ''ID'', ''CREATED''] @ attributes) # map (rowOf env hasAttrs attributes) resources))"
proof (intro conjI allI impI)
  from clientLoop_resources [OF assms(1)] assms(2)
  obtain k where k: "k \<in> set keys" and "contribution env attributes rType k \<noteq> []" by auto
  then have "\<not> isl (ListResourcesByType env k rType)" by (simp add: contribution_listed)
  with k show q: "filter (\<lambda>k. \<not> isl (ListResourcesByType env k rType)) keys \<noteq> []"
    by (auto simp: filter_empty_conv)
  with clientLoop_hasAttrs [OF assms(1)]
  show "hasAttrs = fst (HasAttributes env attributes rType
                      (last (filter (\<lambda>k. \<not> isl (ListResourcesByType env k rType)) keys)))" by simp
  show e: "typeBody env resourceTypePattern attributes keys rType w =
           printResourcesCsv env resourceTypePattern resources hasAttrs attributes w1"
    by (rule typeBody_export [OF assms])
  {
    fix u w'
    assume "typeBody env resourceTypePattern attributes keys rType w = Normal u w'"
    with e have "printResourcesCsv env resourceTypePattern resources hasAttrs attributes w1 = Normal u w'" by simp
    from printResourcesCsv_file(1) [OF this]
    show "files w' (csvPath resourceTypePattern) =
              Some (([''TYPE'', ''ID'', ''CREATED''] @ attributes) # map (rowOf env hasAttrs attributes) resources)" .
  }
  fix key rs h w0 rs' h' w0'
  assume "\<not> isl (ListResourcesByType env key rType) \<and>
            clientBody env attributes rType key rs h w0 = Normal (rs', h') w0'"
  with clientBody_Normal(3) [of env attributes rType key rs h w0 rs' h' w0']
  show "h' = fst (HasAttributes env attributes rType key)" by simp
qed

theorem C4_last_schema_query_wins_witness:
  "files (world (typeBody scenario ''aws_instance'' requested [dev, prod] ''aws_instance'' noEffects))
     ''aws-resources/aws_instance.csv'' =
     Some [[''TYPE'', ''ID'', ''CREATED'', ''private_ip'', ''public_ip'', ''tags''],
           [''aws_instance'', ''dev-1'', '''', ''N/A'', ''N/A'', ''{}''],
           [''aws_instance'', ''prod-1'', '''', ''N/A'', ''N/A'', ''{}'']] \<and>
   files (world (typeBody scenario ''aws_instance'' requested [prod, dev] ''aws_instance'' noEffects))
     ''aws-resources/aws_instance.csv'' =
     Some [[''TYPE'', ''ID'', ''CREATED'', ''private_ip'', ''public_ip'', ''tags''],
           [''aws_instance'', ''prod-1'', '''', ''10.0.0.7'', ''error'', ''{}''],
           [''aws_instance'', ''dev-1'', '''', ''10.0.0.7'', ''error'', ''{}'']]"
proof -
  let ?st = "Some [(''private_ip'', ''10.0.0.7''), (''tags'', ''{}'')]"
  let ?d = "(instanceOf dev ''aws_instance'')\<lparr>State := ?st\<rparr>"
  let ?p = "(instanceOf prod ''aws_instance'')\<lparr>State := ?st\<rparr>"
  let ?t1 = "typeBody scenario ''aws_instance'' requested [dev, prod] ''aws_instance'' noEffects"
  let ?t2 = "typeBody scenario ''aws_instance'' requested [prod, dev] ''aws_instance'' noEffects"
  have l1: "clientLoop scenario requested ''aws_instance'' [dev, prod] [] fmempty noEffects =
              Normal ([?d, ?p], fmupd ''tags'' True fmempty)
                (noEffects\<lparr>hydrations := [[instanceOf dev ''aws_instance''], [instanceOf prod ''aws_instance'']]\<rparr>)"
    by (simp add: clientBody_simps scenario_simps)
  have l2: "clientLoop scenario requested ''aws_instance'' [prod, dev] [] fmempty noEffects =
              Normal ([?p, ?d], fmupd ''private_ip'' True (fmupd ''public_ip'' True (fmupd ''tags'' True fmempty)))
                (noEffects\<lparr>hydrations := [[instanceOf prod ''aws_instance''], [instanceOf dev ''aws_instance'']]\<rparr>)"
    by (simp add: clientBody_simps scenario_simps)
  have ne1: "[?d, ?p] \<noteq> []" and ne2: "[?p, ?d] \<noteq> []" by simp_all
  have t1: "?t1 = Normal () (world ?t1)" by (simp add: run_simps scenario_simps)
  have t2: "?t2 = Normal () (world ?t2)" by (simp add: run_simps scenario_simps)
  from C4_last_schema_query_wins [OF l1 ne1, of "''aws_instance''"] t1
  have "files (world ?t1) (csvPath ''aws_instance'') =
          Some (([''TYPE'', ''ID'', ''CREATED''] @ requested) #
                map (rowOf scenario (fmupd ''tags'' True fmempty) requested) [?d, ?p])" by blast
  then have a: "files (world ?t1) ''aws-resources/aws_instance.csv'' =
     Some [[''TYPE'', ''ID'', ''CREATED'', ''private_ip'', ''public_ip'', ''tags''],
           [''aws_instance'', ''dev-1'', '''', ''N/A'', ''N/A'', ''{}''],
           [''aws_instance'', ''prod-1'', '''', ''N/A'', ''N/A'', ''{}'']]"
    by (simp add: rowOf_def resourceRow_def attributeValue_def scenario_simps)
  from C4_last_schema_query_wins [OF l2 ne2, of "''aws_instance''"] t2
  have "files (world ?t2) (csvPath ''aws_instance'') =
          Some (([''TYPE'', ''ID'', ''CREATED''] @ requested) #
                map (rowOf scenario (fmupd ''private_ip'' True (fmupd ''public_ip'' True (fmupd ''tags'' True fmempty)))
                       requested) [?p, ?d])" by blast
  then have b: "files (world ?t2) ''aws-resources/aws_instance.csv'' =
     Some [[''TYPE'', ''ID'', ''CREATED'', ''private_ip'', ''public_ip'', ''tags''],
           [''aws_instance'', ''prod-1'', '''', ''10.0.0.7'', ''error'', ''{}''],
           [''aws_instance'', ''dev-1'', '''', ''10.0.0.7'', ''error'', ''{}'']]"
    by (simp add: rowOf_def resourceRow_def attributeValue_def scenario_simps)
  from a b show ?thesis by blast
qed

section \<open>The file of a type\<close>

lemma Println_dirs: "dirs (Println s w) = dirs w"
  by (simp add: Println_def)

lemma closeProviders_dirs: "dirs (closeProviders ps w) = dirs w"
  by (simp add: closeProviders_def)

lemma typeBody_Normal_clientLoop:
  "typeBody env p attrs keys rType w = Normal u w' \<Longrightarrow>
     \<exists>rs h w1. clientLoop env attrs rType keys [] fmempty w = Normal (rs, h) w1"
  by (auto simp: typeBody_def split: outcome.splits)

lemma printResource_single:
  "MatchSupportedTypes env p = Inr [rType] \<Longrightarrow>
     printResource env p attrs clients w =
       (case typeBody env p attrs (rangeClients env clients rType) rType w of
          Panicked err w' \<Rightarrow> Panicked err w'
        | Normal u w' \<Rightarrow> Normal () w')"
  by (simp add: printResource_def split: outcome.splits)

text \<open>
  Claim C2. The program passes the pattern \<^verbatim>\<open>aws_instance\<close>, which names one type, and the
  file is named after the pattern. After a successful set-up, when the pattern matches
  that type and \<^verbatim>\<open>mainExitCode\<close> returns, the loop over the clients has ended with the
  resources of the type. If there are none, no file is touched. Otherwise the directory
  \<^verbatim>\<open>aws-resources/\<close> has been made and exactly one file has changed,
  \<^verbatim>\<open>aws-resources/aws_instance.csv\<close>: whatever it held before, it now holds the header
  \<^verbatim>\<open>TYPE, ID, CREATED\<close> with the requested attributes, then one row for each resource, in
  order.
\<close>

theorem C2_one_file_named_after_type:
  assumes "prepare env flags (Println [] w) = Inr (clients, providers, w0)"
      and "MatchSupportedTypes env ''aws_instance'' = Inr [''aws_instance'']"
      and "mainExitCode env flags w = Normal code w'"
  shows "\<exists>resources hasAttrs w1.
           clientLoop env [''private_ip'', ''public_ip'', ''tags''] ''aws_instance''
             (rangeClients env clients ''aws_instance'') [] fmempty (Println [] w) = Normal (resources, hasAttrs) w1 \<and>
           (resources = [] \<longrightarrow> files w' = files w) \<and>
           (resources \<noteq> [] \<longrightarrow>
              ''aws-resources/'' \<in> dirs w' \<and>
              files w' = (files w)(''aws-resources/aws_instance.csv'' \<mapsto>
                 [''TYPE'', ''ID'', ''CREATED'', ''private_ip'', ''public_ip'', ''tags''] #
                 map (rowOf env hasAttrs [''private_ip'', ''public_ip'', ''tags'']) resources))"
proof -
  let ?attrs = "[''private_ip'', ''public_ip'', ''tags'']"
  let ?keys = "rangeClients env clients ''aws_instance''"
  let ?v = "Println [] w"
  obtain w2 where p: "printResource env ''aws_instance'' ?attrs clients ?v = Normal () w2"
    and e: "w' = Println [] (closeProviders providers w2)"
  proof (cases "printResource env ''aws_instance'' ?attrs clients ?v")
    case (Normal u w2)
    with mainExitCode_Normal [OF assms(1) Normal] assms(3) that show ?thesis by simp
  next
    case (Panicked err w2)
    with mainExitCode_Panicked [OF assms(1) Panicked] assms(3) show ?thesis by simp
  qed
  from p printResource_single [OF assms(2), of ?attrs clients ?v]
  have t: "typeBody env ''aws_instance'' ?attrs ?keys ''aws_instance'' ?v = Normal () w2"
    by (simp split: outcome.splits)
  from typeBody_Normal_clientLoop [OF t] obtain resources hasAttrs w1
    where l: "clientLoop env ?attrs ''aws_instance'' ?keys [] fmempty ?v = Normal (resources, hasAttrs) w1"
    by blast
  from clientLoop_unchanged [OF l]
  have u: "files w1 = files w" "dirs w1 = dirs w" by (simp_all add: Println_fields Println_dirs)
  have a: "resources = [] \<longrightarrow> files w' = files w"
  proof
    assume "resources = []"
    with l t typeBody_empty [of env ?attrs "''aws_instance''" ?keys ?v hasAttrs w1 "''aws_instance''"]
    have "w2 = w1" by simp
    with e u show "files w' = files w" by (simp add: Println_fields closeProviders_fields)
  qed
  have b: "resources \<noteq> [] \<longrightarrow>
              ''aws-resources/'' \<in> dirs w' \<and>
              files w' = (files w)(''aws-resources/aws_instance.csv'' \<mapsto>
                 [''TYPE'', ''ID'', ''CREATED'', ''private_ip'', ''public_ip'', ''tags''] #
                 map (rowOf env hasAttrs ?attrs) resources)"
  proof
    assume "resources \<noteq> []"
    from typeBody_export [OF l this, of "''aws_instance''"] t
    have "printResourcesCsv env ''aws_instance'' resources hasAttrs ?attrs w1 = Normal () w2" by simp
    from printResourcesCsv_Normal [OF this] u
    have "''aws-resources/'' \<in> dirs w2"
      and "files w2 = (files w)(''aws-resources/aws_instance.csv'' \<mapsto>
                 [''TYPE'', ''ID'', ''CREATED'', ''private_ip'', ''public_ip'', ''tags''] #
                 map (rowOf env hasAttrs ?attrs) resources)"
      by (simp_all add: csvPath_instance)
    with e show "''aws-resources/'' \<in> dirs w' \<and>
              files w' = (files w)(''aws-resources/aws_instance.csv'' \<mapsto>
                 [''TYPE'', ''ID'', ''CREATED'', ''private_ip'', ''public_ip'', ''tags''] #
                 map (rowOf env hasAttrs ?attrs) resources)"
      by (simp add: Println_fields closeProviders_fields Println_dirs closeProviders_dirs)
  qed
  from l a b show ?thesis by blast
qed

theorem C2_one_file_named_after_type_witness:
  "files (world (mainExitCode scenario noFlags noEffects)) =
     [''aws-resources/aws_instance.csv'' \<mapsto>
        [[''TYPE'', ''ID'', ''CREATED'', ''private_ip'', ''public_ip'', ''tags''],
         [''aws_instance'', ''dev-1'', '''', ''N/A'', ''N/A'', ''{}''],
         [''aws_instance'', ''prod-1'', '''', ''N/A'', ''N/A'', ''{}'']]] \<and>
   ''aws-resources/'' \<in> dirs (world (mainExitCode scenario noFlags noEffects))"
proof -
  let ?st = "Some [(''private_ip'', ''10.0.0.7''), (''tags'', ''{}'')]"
  let ?d = "(instanceOf dev ''aws_instance'')\<lparr>State := ?st\<rparr>"
  let ?p = "(instanceOf prod ''aws_instance'')\<lparr>State := ?st\<rparr>"
  let ?m = "mainExitCode scenario noFlags noEffects"
  have s: "prepare scenario noFlags (Println [] noEffects) = Inr ([dev, prod], [dev, prod], Println [] noEffects)"
    by (simp add: prepare_def pools_def scenario_def noFlags_def)
  have t: "MatchSupportedTypes scenario ''aws_instance'' = Inr [''aws_instance'']"
    by (simp add: scenario_def)
  have n: "?m = Normal 0 (world ?m)"
    by (simp add: mainExitCode_def mainBody_def prepare_def pools_def Println_def closeProviders_def
          run_simps scenario_simps)
  have l: "clientLoop scenario [''private_ip'', ''public_ip'', ''tags''] ''aws_instance''
             (rangeClients scenario [dev, prod] ''aws_instance'') [] fmempty (Println [] noEffects) =
           Normal ([?d, ?p], fmupd ''tags'' True fmempty)
             ((Println [] noEffects)\<lparr>hydrations := [[instanceOf dev ''aws_instance''], [instanceOf prod ''aws_instance'']]\<rparr>)"
    by (simp add: clientBody_simps scenario_simps Println_def)
  from C2_one_file_named_after_type [OF s t n] l
  have "''aws-resources/'' \<in> dirs (world ?m) \<and>
        files (world ?m) = (files noEffects)(''aws-resources/aws_instance.csv'' \<mapsto>
                 [''TYPE'', ''ID'', ''CREATED'', ''private_ip'', ''public_ip'', ''tags''] #
                 map (rowOf scenario (fmupd ''tags'' True fmempty) [''private_ip'', ''public_ip'', ''tags'']) [?d, ?p])"
    by auto
  then show ?thesis
    by (simp add: rowOf_def resourceRow_def attributeValue_def scenario_simps)
qed

end
